theory Spec2Isabelle
  imports Main "HOL-Library.Multiset"
begin

section \<open>Request values\<close>

text \<open>
  The routes of \<^verbatim>\<open>backend/routes/skillBadge.js\<close> read \<^verbatim>\<open>req.body\<close>,
  \<^verbatim>\<open>req.query\<close> and \<^verbatim>\<open>req.params\<close>. A body is a parsed JSON object: a finite
  map from its own property names to JSON values. A property that is absent reads as
  \<^verbatim>\<open>undefined\<close>, which is \<open>None\<close> here. Numbers are the integers; a fractional
  number is outside this model.
\<close>

datatype json =
    JNull
  | JBool bool
  | JNum int
  | JStr string
  | JArr "json list"
  | JObj "(string \<times> json) list"

type_synonym body = "string \<rightharpoonup> json"

text \<open>JavaScript truthiness, as \<^verbatim>\<open>!x\<close>, \<^verbatim>\<open>x || y\<close> and \<^verbatim>\<open>if (x)\<close> test it.\<close>

fun truthy :: "json option \<Rightarrow> bool" where
  "truthy None = False"
| "truthy (Some JNull) = False"
| "truthy (Some (JBool b)) = b"
| "truthy (Some (JNum n)) = (n \<noteq> 0)"
| "truthy (Some (JStr s)) = (s \<noteq> [])"
| "truthy (Some (JArr xs)) = True"
| "truthy (Some (JObj kvs)) = True"

text \<open>\<^verbatim>\<open>x || null\<close>\<close>

definition or_null :: "json option \<Rightarrow> json" where
  "or_null x = (case x of None \<Rightarrow> JNull | Some v \<Rightarrow> if truthy (Some v) then v else JNull)"

text \<open>\<^verbatim>\<open>!!x\<close>\<close>

definition not_not :: "json option \<Rightarrow> json" where
  "not_not x = JBool (truthy x)"

text \<open>\<^verbatim>\<open>typeof x === 'boolean'\<close>\<close>

fun is_boolean :: "json option \<Rightarrow> bool" where
  "is_boolean (Some (JBool b)) = True"
| "is_boolean x = False"

text \<open>
  A value placed in the parameter array of \<^verbatim>\<open>pool.query\<close>; the driver sends
  \<^verbatim>\<open>undefined\<close> as it sends \<^verbatim>\<open>null\<close>.
\<close>

definition param_of :: "json option \<Rightarrow> json" where
  "param_of x = (case x of None \<Rightarrow> JNull | Some v \<Rightarrow> v)"


section \<open>The table \<^verbatim>\<open>skill_badges\<close>\<close>

text \<open>
  One row of the table that \<^verbatim>\<open>createTableQuery\<close> declares. The column \<^verbatim>\<open>id\<close> is
  \<open>row_id\<close> (HOL has a constant \<open>id\<close>). Only \<^verbatim>\<open>badge_description\<close> is nullable.
  Timestamps are clock ticks.
\<close>

record skill_badge =
  row_id :: int
  student_id :: int
  badge_name :: string
  badge_description :: "string option"
  verified :: bool
  created_at :: nat
  updated_at :: nat

datatype coltype = BigInt | VarChar255 | Text | Boolean

datatype sqlval = SNull | SInt int | SText string | SBool bool

datatype pg_error =
    InvalidInput coltype json
  | NotNullViolation string
  | UndefinedColumn string
  | MissingParameter nat

text \<open>
  The input conversions of the database for a parameter that is not null, one per column
  type. They belong to the database server and its driver, not to this repository, so the
  routes take them as a parameter; \<open>None\<close> is the server's "invalid input" error.
  Two cases do not depend on them: \<^verbatim>\<open>null\<close> is SQL \<^verbatim>\<open>NULL\<close> for every column type,
  and a JavaScript boolean reaches a \<^verbatim>\<open>BOOLEAN\<close> column as itself.
\<close>

record pg =
  int8in :: "json \<Rightarrow> int option"
  varcharin :: "json \<Rightarrow> string option"
  textin :: "json \<Rightarrow> string option"
  boolin :: "json \<Rightarrow> bool option"

definition bind :: "pg \<Rightarrow> coltype \<Rightarrow> json \<Rightarrow> pg_error + sqlval" where
  "bind cv ty v =
     (if v = JNull then Inr SNull
      else case ty of
        BigInt \<Rightarrow> (case int8in cv v of None \<Rightarrow> Inl (InvalidInput ty v) | Some n \<Rightarrow> Inr (SInt n))
      | VarChar255 \<Rightarrow> (case varcharin cv v of None \<Rightarrow> Inl (InvalidInput ty v) | Some s \<Rightarrow> Inr (SText s))
      | Text \<Rightarrow> (case textin cv v of None \<Rightarrow> Inl (InvalidInput ty v) | Some s \<Rightarrow> Inr (SText s))
      | Boolean \<Rightarrow>
          (case v of
             JBool b \<Rightarrow> Inr (SBool b)
           | _ \<Rightarrow> (case boolin cv v of None \<Rightarrow> Inl (InvalidInput ty v) | Some b \<Rightarrow> Inr (SBool b))))"

text \<open>The columns a statement of this file assigns, with their declared types.\<close>

definition column_type :: "string \<Rightarrow> coltype option" where
  "column_type k =
     (if k = ''student_id'' then Some BigInt
      else if k = ''badge_name'' then Some VarChar255
      else if k = ''badge_description'' then Some Text
      else if k = ''verified'' then Some Boolean
      else None)"

text \<open>
  Storing a bound value in a column of a row; \<^verbatim>\<open>NOT NULL\<close> is checked here, when a
  row is written.
\<close>

definition store :: "string \<Rightarrow> sqlval \<Rightarrow> skill_badge \<Rightarrow> pg_error + skill_badge" where
  "store k sv r =
     (if k = ''student_id'' then
        (case sv of SInt n \<Rightarrow> Inr (r\<lparr>student_id := n\<rparr>) | _ \<Rightarrow> Inl (NotNullViolation k))
      else if k = ''badge_name'' then
        (case sv of SText s \<Rightarrow> Inr (r\<lparr>badge_name := s\<rparr>) | _ \<Rightarrow> Inl (NotNullViolation k))
      else if k = ''badge_description'' then
        (case sv of SText s \<Rightarrow> Inr (r\<lparr>badge_description := Some s\<rparr>)
                  | _ \<Rightarrow> Inr (r\<lparr>badge_description := None\<rparr>))
      else if k = ''verified'' then
        (case sv of SBool b \<Rightarrow> Inr (r\<lparr>verified := b\<rparr>) | _ \<Rightarrow> Inl (NotNullViolation k))
      else Inl (UndefinedColumn k))"

text \<open>
  The trigger function of \<^verbatim>\<open>createTableQuery\<close>, run \<^verbatim>\<open>BEFORE UPDATE ... FOR EACH ROW\<close>:
  \<^verbatim>\<open>NEW.updated_at = NOW(); RETURN NEW;\<close>
\<close>

definition update_updated_at_column :: "nat \<Rightarrow> skill_badge \<Rightarrow> skill_badge" where
  "update_updated_at_column now new = new\<lparr>updated_at := now\<rparr>"

text \<open>\<^verbatim>\<open>ORDER BY created_at DESC\<close>\<close>

definition order_by_created_at_desc :: "skill_badge list \<Rightarrow> skill_badge list" where
  "order_by_created_at_desc rs = rev (sort_key created_at rs)"


section \<open>Statements\<close>

text \<open>
  The statements the routes send. \<open>UpdateSet flds idx\<close> is the text the update route
  builds: \<^verbatim>\<open>UPDATE skill_badges SET k1 = $i1, ... WHERE id = $idx RETURNING *\<close>, with
  \<open>flds\<close> the pairs \<open>(k, i)\<close> of its \<^verbatim>\<open>SET\<close> list.
\<close>

datatype stmt =
    CreateSchema
  | InsertBadge
  | SelectAll
  | SelectByStudent
  | SelectById
  | UpdateSet "(string \<times> nat) list" nat
  | UpdateVerified
  | ToggleVerified
  | DeleteById

text \<open>The parameter \<^verbatim>\<open>$i\<close> of a parameter array; parameters count from 1.\<close>

definition param :: "json list \<Rightarrow> nat \<Rightarrow> pg_error + json" where
  "param vs i = (if 1 \<le> i \<and> i \<le> length vs then Inr (vs ! (i - 1)) else Inl (MissingParameter i))"

definition bind_param :: "pg \<Rightarrow> coltype \<Rightarrow> json list \<Rightarrow> nat \<Rightarrow> pg_error + sqlval" where
  "bind_param cv ty vs i = (case param vs i of Inl e \<Rightarrow> Inl e | Inr v \<Rightarrow> bind cv ty v)"

text \<open>\<^verbatim>\<open>WHERE col = $i\<close> on a \<^verbatim>\<open>BIGINT\<close> column: a null parameter matches no row.\<close>

definition eq_bigint :: "sqlval \<Rightarrow> int \<Rightarrow> bool" where
  "eq_bigint sv n = (case sv of SInt m \<Rightarrow> n = m | _ \<Rightarrow> False)"

text \<open>The \<^verbatim>\<open>SET\<close> list with its parameters bound, in order; the first failure ends it.\<close>

fun bind_fields :: "pg \<Rightarrow> json list \<Rightarrow> (string \<times> nat) list \<Rightarrow> pg_error + (string \<times> sqlval) list" where
  "bind_fields cv vs [] = Inr []"
| "bind_fields cv vs ((k, i) # fs) =
     (case column_type k of
        None \<Rightarrow> Inl (UndefinedColumn k)
      | Some ty \<Rightarrow>
          (case bind_param cv ty vs i of
             Inl e \<Rightarrow> Inl e
           | Inr sv \<Rightarrow> (case bind_fields cv vs fs of Inl e \<Rightarrow> Inl e | Inr as \<Rightarrow> Inr ((k, sv) # as))))"

fun assign :: "(string \<times> sqlval) list \<Rightarrow> skill_badge \<Rightarrow> pg_error + skill_badge" where
  "assign [] r = Inr r"
| "assign ((k, sv) # as) r = (case store k sv r of Inl e \<Rightarrow> Inl e | Inr r' \<Rightarrow> assign as r')"

text \<open>
  \<^verbatim>\<open>UPDATE ... WHERE p RETURNING *\<close>: every row that satisfies \<open>p\<close> is replaced by
  \<open>f\<close> of it; the result is the new table and the rows returned. A failure on any row fails
  the statement.
\<close>

fun update_where ::
  "(skill_badge \<Rightarrow> bool) \<Rightarrow> (skill_badge \<Rightarrow> pg_error + skill_badge) \<Rightarrow> skill_badge list
     \<Rightarrow> pg_error + (skill_badge list \<times> skill_badge list)" where
  "update_where p f [] = Inr ([], [])"
| "update_where p f (r # rs) =
     (if p r then
        (case f r of
           Inl e \<Rightarrow> Inl e
         | Inr r' \<Rightarrow>
             (case update_where p f rs of
                Inl e \<Rightarrow> Inl e
              | Inr (tbl, out) \<Rightarrow> Inr (r' # tbl, r' # out)))
      else
        (case update_where p f rs of
           Inl e \<Rightarrow> Inl e
         | Inr (tbl, out) \<Rightarrow> Inr (r # tbl, out)))"

text \<open>
  The database: the rows of the table (the schema of \<^verbatim>\<open>createTableQuery\<close> is in
  place), the next value of the \<^verbatim>\<open>BIGSERIAL\<close> sequence, the server's clock, and the
  statements received so far with their parameter arrays.
\<close>

record db =
  table :: "skill_badge list"
  next_id :: int
  clock :: nat
  queries :: "(stmt \<times> json list) list"

text \<open>
  One statement at time \<open>now\<close> on the table \<open>tbl\<close>, the sequence at \<open>nid\<close>: the new
  table, the new sequence value and the rows of the result, or the server's error with
  nothing changed.
\<close>

definition exec ::
  "pg \<Rightarrow> nat \<Rightarrow> stmt \<Rightarrow> json list \<Rightarrow> skill_badge list \<Rightarrow> int
     \<Rightarrow> pg_error + (skill_badge list \<times> int \<times> skill_badge list)" where
  "exec cv now st vs tbl nid =
     (case st of
        CreateSchema \<Rightarrow> Inr (tbl, nid, [])
      | InsertBadge \<Rightarrow>
          (case bind_fields cv vs
                  [(''student_id'', 1), (''badge_name'', 2), (''badge_description'', 3), (''verified'', 4)] of
             Inl e \<Rightarrow> Inl e
           | Inr as \<Rightarrow>
               (case assign as
                       \<lparr>row_id = nid, student_id = 0, badge_name = [], badge_description = None,
                        verified = False, created_at = now, updated_at = now\<rparr> of
                  Inl e \<Rightarrow> Inl e
                | Inr r \<Rightarrow> Inr (tbl @ [r], nid + 1, [r])))
      | SelectAll \<Rightarrow> Inr (tbl, nid, order_by_created_at_desc tbl)
      | SelectByStudent \<Rightarrow>
          (case bind_param cv BigInt vs 1 of
             Inl e \<Rightarrow> Inl e
           | Inr sv \<Rightarrow>
               Inr (tbl, nid, order_by_created_at_desc (filter (\<lambda>r. eq_bigint sv (student_id r)) tbl)))
      | SelectById \<Rightarrow>
          (case bind_param cv BigInt vs 1 of
             Inl e \<Rightarrow> Inl e
           | Inr sv \<Rightarrow> Inr (tbl, nid, filter (\<lambda>r. eq_bigint sv (row_id r)) tbl))
      | UpdateSet flds idx \<Rightarrow>
          (case bind_fields cv vs flds of
             Inl e \<Rightarrow> Inl e
           | Inr as \<Rightarrow>
               (case bind_param cv BigInt vs idx of
                  Inl e \<Rightarrow> Inl e
                | Inr sv \<Rightarrow>
                    (case update_where (\<lambda>r. eq_bigint sv (row_id r))
                            (\<lambda>r. case assign as r of
                                   Inl e \<Rightarrow> Inl e
                                 | Inr r' \<Rightarrow> Inr (update_updated_at_column now r')) tbl of
                       Inl e \<Rightarrow> Inl e
                     | Inr (tbl', out) \<Rightarrow> Inr (tbl', nid, out))))
      | UpdateVerified \<Rightarrow>
          (case bind_param cv Boolean vs 1 of
             Inl e \<Rightarrow> Inl e
           | Inr b \<Rightarrow>
               (case bind_param cv BigInt vs 2 of
                  Inl e \<Rightarrow> Inl e
                | Inr sv \<Rightarrow>
                    (case update_where (\<lambda>r. eq_bigint sv (row_id r))
                            (\<lambda>r. case store ''verified'' b r of
                                   Inl e \<Rightarrow> Inl e
                                 | Inr r' \<Rightarrow> Inr (update_updated_at_column now r')) tbl of
                       Inl e \<Rightarrow> Inl e
                     | Inr (tbl', out) \<Rightarrow> Inr (tbl', nid, out))))
      | ToggleVerified \<Rightarrow>
          (case bind_param cv BigInt vs 1 of
             Inl e \<Rightarrow> Inl e
           | Inr sv \<Rightarrow>
               (case update_where (\<lambda>r. eq_bigint sv (row_id r))
                       (\<lambda>r. Inr (update_updated_at_column now (r\<lparr>verified := \<not> verified r\<rparr>))) tbl of
                  Inl e \<Rightarrow> Inl e
                | Inr (tbl', out) \<Rightarrow> Inr (tbl', nid, out)))
      | DeleteById \<Rightarrow>
          (case bind_param cv BigInt vs 1 of
             Inl e \<Rightarrow> Inl e
           | Inr sv \<Rightarrow>
               Inr (filter (\<lambda>r. \<not> eq_bigint sv (row_id r)) tbl, nid,
                    filter (\<lambda>r. eq_bigint sv (row_id r)) tbl)))"

text \<open>
  \<^verbatim>\<open>await pool.query(text, values)\<close>, \<open>dt\<close> ticks after the previous statement: the
  statement is recorded, the clock moves, and the result is the rows or the error thrown.
\<close>

definition pool_query ::
  "pg \<Rightarrow> nat \<Rightarrow> stmt \<Rightarrow> json list \<Rightarrow> db \<Rightarrow> db \<times> (pg_error + skill_badge list)" where
  "pool_query cv dt st vs d =
     (let now = clock d + dt;
          d1 = d\<lparr>clock := now, queries := queries d @ [(st, vs)]\<rparr>
      in case exec cv now st vs (table d) (next_id d) of
           Inl e \<Rightarrow> (d1, Inl e)
         | Inr (tbl, nid, out) \<Rightarrow> (d1\<lparr>table := tbl, next_id := nid\<rparr>, Inr out))"


section \<open>Routes\<close>

text \<open>
  A response is \<^verbatim>\<open>res.status(n).json({success, message, data})\<close> (status 200 when
  none is set), or the thrown error handed to \<^verbatim>\<open>next(err)\<close>.
\<close>

datatype payload = Row skill_badge | Rows "skill_badge list"

datatype response =
    Json nat bool "string option" "payload option"
  | Next pg_error

text \<open>\<^verbatim>\<open>result.rows[0]\<close>; on an empty array it is \<^verbatim>\<open>undefined\<close> and the key is left out.\<close>

definition first_row :: "skill_badge list \<Rightarrow> payload option" where
  "first_row rs = (case rs of [] \<Rightarrow> None | r # _ \<Rightarrow> Some (Row r))"

text \<open>\<^verbatim>\<open>router.get('/create-skill-badges-table')\<close>\<close>

definition create_skill_badges_table :: "pg \<Rightarrow> nat \<Rightarrow> db \<Rightarrow> db \<times> response" where
  "create_skill_badges_table cv dt d =
     (case pool_query cv dt CreateSchema [] d of
        (d', Inl e) \<Rightarrow> (d', Json 500 False (Some ''Error creating skill_badges table'') None)
      | (d', Inr rs) \<Rightarrow>
          (d', Json 200 True (Some ''skill_badges table created (or already exists)'') None))"

text \<open>\<^verbatim>\<open>router.post('/badges')\<close>\<close>

definition post_badges :: "pg \<Rightarrow> nat \<Rightarrow> body \<Rightarrow> db \<Rightarrow> db \<times> response" where
  "post_badges cv dt b d =
     (if \<not> truthy (b ''student_id'') \<or> \<not> truthy (b ''badge_name'') then
        (d, Json 400 False (Some ''student_id and badge_name are required'') None)
      else
        (case pool_query cv dt InsertBadge
                [param_of (b ''student_id''), param_of (b ''badge_name''),
                 or_null (b ''badge_description''), not_not (b ''verified'')] d of
           (d', Inl e) \<Rightarrow> (d', Next e)
         | (d', Inr rs) \<Rightarrow> (d', Json 201 True None (first_row rs))))"

text \<open>\<^verbatim>\<open>router.get('/badges')\<close>, with \<open>q\<close> the value of \<^verbatim>\<open>req.query.student_id\<close>\<close>

definition get_badges :: "pg \<Rightarrow> nat \<Rightarrow> json option \<Rightarrow> db \<Rightarrow> db \<times> response" where
  "get_badges cv dt q d =
     (case (if truthy q then pool_query cv dt SelectByStudent [param_of q] d
            else pool_query cv dt SelectAll [] d) of
        (d', Inl e) \<Rightarrow> (d', Next e)
      | (d', Inr rs) \<Rightarrow> (d', Json 200 True None (Some (Rows rs))))"

text \<open>\<^verbatim>\<open>router.get('/badges/:id')\<close>\<close>

definition get_badge :: "pg \<Rightarrow> nat \<Rightarrow> string \<Rightarrow> db \<Rightarrow> db \<times> response" where
  "get_badge cv dt ident d =
     (case pool_query cv dt SelectById [JStr ident] d of
        (d', Inl e) \<Rightarrow> (d', Next e)
      | (d', Inr rs) \<Rightarrow>
          if length rs = 0 then (d', Json 404 False (Some ''Badge not found'') None)
          else (d', Json 200 True None (first_row rs)))"

text \<open>\<^verbatim>\<open>router.get('/students/:studentId/badges')\<close>\<close>

definition get_student_badges :: "pg \<Rightarrow> nat \<Rightarrow> string \<Rightarrow> db \<Rightarrow> db \<times> response" where
  "get_student_badges cv dt studentId d =
     (case pool_query cv dt SelectByStudent [JStr studentId] d of
        (d', Inl e) \<Rightarrow> (d', Next e)
      | (d', Inr rs) \<Rightarrow> (d', Json 200 True None (Some (Rows rs))))"

text \<open>
  \<^verbatim>\<open>router.put('/badges/:id')\<close>. The loop over \<^verbatim>\<open>allowed\<close> carries
  \<^verbatim>\<open>fields\<close>, \<^verbatim>\<open>values\<close> and \<^verbatim>\<open>idx\<close>; the entry \<open>(key, idx)\<close> of \<open>flds\<close> is the
  text \<^verbatim>\<open>key = $idx\<close>.
\<close>

definition allowed :: "string list" where
  "allowed = [''badge_name'', ''badge_description'', ''verified'', ''student_id'']"

fun collect ::
  "body \<Rightarrow> string list \<Rightarrow> (string \<times> nat) list \<times> json list \<times> nat
     \<Rightarrow> (string \<times> nat) list \<times> json list \<times> nat" where
  "collect b [] acc = acc"
| "collect b (key # keys) (flds, vals, idx) =
     (case b key of
        Some v \<Rightarrow> collect b keys (flds @ [(key, idx)], vals @ [v], idx + 1)
      | None \<Rightarrow> collect b keys (flds, vals, idx))"

definition put_badge :: "pg \<Rightarrow> nat \<Rightarrow> string \<Rightarrow> body \<Rightarrow> db \<Rightarrow> db \<times> response" where
  "put_badge cv dt ident b d =
     (case collect b allowed ([], [], 1) of
        (flds, vals, idx) \<Rightarrow>
          if length flds = 0 then
            (d, Json 400 False (Some ''No fields provided to update'') None)
          else
            (case pool_query cv dt (UpdateSet flds idx) (vals @ [JStr ident]) d of
               (d', Inl e) \<Rightarrow> (d', Next e)
             | (d', Inr rs) \<Rightarrow>
                 if length rs = 0 then (d', Json 404 False (Some ''Badge not found'') None)
                 else (d', Json 200 True None (first_row rs))))"

text \<open>\<^verbatim>\<open>router.patch('/badges/:id/verify')\<close>\<close>

definition patch_verify :: "pg \<Rightarrow> nat \<Rightarrow> string \<Rightarrow> body \<Rightarrow> db \<Rightarrow> db \<times> response" where
  "patch_verify cv dt ident b d =
     (case (if is_boolean (b ''verified'')
            then pool_query cv dt UpdateVerified [param_of (b ''verified''), JStr ident] d
            else pool_query cv dt ToggleVerified [JStr ident] d) of
        (d', Inl e) \<Rightarrow> (d', Next e)
      | (d', Inr rs) \<Rightarrow>
          if length rs = 0 then (d', Json 404 False (Some ''Badge not found'') None)
          else (d', Json 200 True None (first_row rs)))"

text \<open>\<^verbatim>\<open>router.delete('/badges/:id')\<close>\<close>

definition delete_badge :: "pg \<Rightarrow> nat \<Rightarrow> string \<Rightarrow> db \<Rightarrow> db \<times> response" where
  "delete_badge cv dt ident d =
     (case pool_query cv dt DeleteById [JStr ident] d of
        (d', Inl e) \<Rightarrow> (d', Next e)
      | (d', Inr rs) \<Rightarrow>
          if length rs = 0 then (d', Json 404 False (Some ''Badge not found'') None)
          else (d', Json 200 True (Some ''Badge deleted'') (first_row rs)))"

text \<open>The router: one request, \<open>dt\<close> ticks after the previous statement.\<close>

datatype request =
    CreateTable
  | PostBadges body
  | GetBadges "json option"
  | GetBadge string
  | GetStudentBadges string
  | PutBadge string body
  | PatchVerify string body
  | DeleteBadge string

fun handle :: "pg \<Rightarrow> nat \<Rightarrow> request \<Rightarrow> db \<Rightarrow> db \<times> response" where
  "handle cv dt CreateTable d = create_skill_badges_table cv dt d"
| "handle cv dt (PostBadges b) d = post_badges cv dt b d"
| "handle cv dt (GetBadges q) d = get_badges cv dt q d"
| "handle cv dt (GetBadge ident) d = get_badge cv dt ident d"
| "handle cv dt (GetStudentBadges sid) d = get_student_badges cv dt sid d"
| "handle cv dt (PutBadge ident b) d = put_badge cv dt ident b d"
| "handle cv dt (PatchVerify ident b) d = patch_verify cv dt ident b d"
| "handle cv dt (DeleteBadge ident) d = delete_badge cv dt ident d"

text \<open>A history of requests, served in order from a database.\<close>

fun run :: "pg \<Rightarrow> (nat \<times> request) list \<Rightarrow> db \<Rightarrow> db" where
  "run cv [] d = d"
| "run cv ((dt, rq) # rest) d = run cv rest (fst (handle cv dt rq d))"

definition empty_db :: db where
  "empty_db = \<lparr>table = [], next_id = 1, clock = 0, queries = []\<rparr>"


section \<open>A reference instance of the conversions\<close>

text \<open>
  One instance of \<open>pg\<close>, to run the routes on concrete requests. It converts decimal
  strings and integers in the 64-bit range for \<^verbatim>\<open>BIGINT\<close>, strings of at most 255
  characters for \<^verbatim>\<open>VARCHAR(255)\<close>, strings for \<^verbatim>\<open>TEXT\<close> (a text value must not hold
  the character U+0000, which the database refuses), and booleans and the words
  \<^verbatim>\<open>true\<close> and \<^verbatim>\<open>false\<close> for \<^verbatim>\<open>BOOLEAN\<close>. It rejects every other value,
  also the few a server would convert; no concrete request below supplies one of those.
  The theorems with a free \<open>cv\<close> hold for every instance.
\<close>

fun digits :: "string \<Rightarrow> nat \<Rightarrow> nat option" where
  "digits [] acc = Some acc"
| "digits (c # cs) acc =
     (let n = (of_char c :: nat)
      in if 48 \<le> n \<and> n \<le> 57 then digits cs (10 * acc + (n - 48)) else None)"

definition decimal :: "string \<Rightarrow> int option" where
  "decimal s =
     (case s of
        [] \<Rightarrow> None
      | c # cs \<Rightarrow>
          if c = CHR ''-'' then (if cs = [] then None else map_option (\<lambda>n. - int n) (digits cs 0))
          else map_option int (digits s 0))"

definition in_int8 :: "int \<Rightarrow> int option" where
  "in_int8 n = (if - (2 ^ 63) \<le> n \<and> n < 2 ^ 63 then Some n else None)"

definition postgres :: pg where
  "postgres =
     \<lparr>int8in = (\<lambda>v. case v of
                      JNum n \<Rightarrow> in_int8 n
                    | JStr s \<Rightarrow> (case decimal s of None \<Rightarrow> None | Some n \<Rightarrow> in_int8 n)
                    | _ \<Rightarrow> None),
      varcharin = (\<lambda>v. case v of
                         JStr s \<Rightarrow> if length s \<le> 255 \<and> CHR 0x00 \<notin> set s then Some s else None
                       | _ \<Rightarrow> None),
      textin = (\<lambda>v. case v of JStr s \<Rightarrow> if CHR 0x00 \<notin> set s then Some s else None | _ \<Rightarrow> None),
      boolin = (\<lambda>v. case v of
                      JBool b \<Rightarrow> Some b
                    | JStr s \<Rightarrow> if s = ''true'' then Some True
                                else if s = ''false'' then Some False else None
                    | _ \<Rightarrow> None)\<rparr>"


section \<open>Specification of the routes\<close>

text \<open>
  The definitions of this section state what the routes are meant to do; the theorems
  compare the routes with them.
\<close>

text \<open>The row of the table with a given \<^verbatim>\<open>id\<close>, if there is one.\<close>

definition badge_with_id :: "db \<Rightarrow> int \<Rightarrow> skill_badge option" where
  "badge_with_id d n = find (\<lambda>r. row_id r = n) (table d)"

text \<open>The \<^verbatim>\<open>created_at\<close> of the badge with a given \<^verbatim>\<open>id\<close>.\<close>

definition created_of :: "db \<Rightarrow> int \<Rightarrow> nat option" where
  "created_of d n = map_option created_at (badge_with_id d n)"

text \<open>
  The pairs of field and value a body supplies, for the keys \<open>ks\<close> in their order: the
  own properties of the body among \<open>ks\<close>, whatever their values.
\<close>

fun supplied :: "body \<Rightarrow> string list \<Rightarrow> (string \<times> json) list" where
  "supplied b [] = []"
| "supplied b (k # ks) = (case b k of None \<Rightarrow> supplied b ks | Some v \<Rightarrow> (k, v) # supplied b ks)"

text \<open>Keys numbered from \<open>i\<close>: the placeholders \<^verbatim>\<open>$i\<close>, \<^verbatim>\<open>$(i+1)\<close>, ... of a statement.\<close>

fun numbered :: "nat \<Rightarrow> 'a list \<Rightarrow> ('a \<times> nat) list" where
  "numbered i [] = []"
| "numbered i (x # xs) = (x, i) # numbered (Suc i) xs"

text \<open>The supplied pairs with each value converted for its column.\<close>

fun bind_pairs :: "pg \<Rightarrow> (string \<times> json) list \<Rightarrow> pg_error + (string \<times> sqlval) list" where
  "bind_pairs cv [] = Inr []"
| "bind_pairs cv ((k, v) # kvs) =
     (case column_type k of
        None \<Rightarrow> Inl (UndefinedColumn k)
      | Some ty \<Rightarrow>
          (case bind cv ty v of
             Inl e \<Rightarrow> Inl e
           | Inr sv \<Rightarrow> (case bind_pairs cv kvs of Inl e \<Rightarrow> Inl e | Inr as \<Rightarrow> Inr ((k, sv) # as))))"

text \<open>
  The database converts the value supplied for column \<open>k\<close> (a field that is absent asks
  nothing of it).
\<close>

definition convertible :: "pg \<Rightarrow> string \<Rightarrow> json option \<Rightarrow> bool" where
  "convertible cv k x =
     (case x of
        None \<Rightarrow> True
      | Some v \<Rightarrow>
          (case column_type k of
             None \<Rightarrow> False
           | Some ty \<Rightarrow> (case bind cv ty v of Inl e \<Rightarrow> False | Inr sv \<Rightarrow> True)))"

text \<open>
  The database accepts the value supplied for column \<open>k\<close> in a row: it converts it, and
  it is not null unless the column is \<^verbatim>\<open>badge_description\<close>, the one nullable column.
\<close>

definition storable :: "pg \<Rightarrow> string \<Rightarrow> json option \<Rightarrow> bool" where
  "storable cv k x =
     (case x of
        None \<Rightarrow> True
      | Some v \<Rightarrow>
          (case column_type k of
             None \<Rightarrow> False
           | Some ty \<Rightarrow>
               (case bind cv ty v of
                  Inl e \<Rightarrow> False
                | Inr sv \<Rightarrow> sv \<noteq> SNull \<or> k = ''badge_description'')))"

text \<open>
  The partial update of a row as the specification words it: each of the four mutable
  fields takes the supplied value when the body has the property and keeps its value when
  it has not; \<^verbatim>\<open>updated_at\<close> is refreshed; \<^verbatim>\<open>id\<close> and \<^verbatim>\<open>created_at\<close> stay.
\<close>

definition merged :: "pg \<Rightarrow> body \<Rightarrow> nat \<Rightarrow> skill_badge \<Rightarrow> skill_badge" where
  "merged cv b now r =
     r\<lparr>badge_name :=
         (case b ''badge_name'' of
            None \<Rightarrow> badge_name r
          | Some v \<Rightarrow> (case bind cv VarChar255 v of Inr (SText s) \<Rightarrow> s | _ \<Rightarrow> badge_name r)),
       badge_description :=
         (case b ''badge_description'' of
            None \<Rightarrow> badge_description r
          | Some v \<Rightarrow> (case bind cv Text v of Inr (SText s) \<Rightarrow> Some s | _ \<Rightarrow> None)),
       verified :=
         (case b ''verified'' of
            None \<Rightarrow> verified r
          | Some v \<Rightarrow> (case bind cv Boolean v of Inr (SBool c) \<Rightarrow> c | _ \<Rightarrow> verified r)),
       student_id :=
         (case b ''student_id'' of
            None \<Rightarrow> student_id r
          | Some v \<Rightarrow> (case bind cv BigInt v of Inr (SInt n) \<Rightarrow> n | _ \<Rightarrow> student_id r)),
       updated_at := now\<rparr>"

text \<open>
  The timestamps of a database are in order: no row was updated before it was created, or
  after the clock's present time.
\<close>

definition stamped :: "db \<Rightarrow> bool" where
  "stamped d = (\<forall>r \<in> set (table d). created_at r \<le> updated_at r \<and> updated_at r \<le> clock d)"

text \<open>
  A table \<open>tbl'\<close> keeps the creation times of \<open>tbl\<close>: a badge of \<open>tbl'\<close> is a badge of
  \<open>tbl\<close> with the same \<^verbatim>\<open>created_at\<close>.
\<close>

definition keeps :: "skill_badge list \<Rightarrow> skill_badge list \<Rightarrow> bool" where
  "keeps tbl tbl' =
     (\<forall>i t. map_option created_at (find (\<lambda>r. row_id r = i) tbl') = Some t \<longrightarrow>
            map_option created_at (find (\<lambda>r. row_id r = i) tbl) = Some t)"

text \<open>
  A database with one badge: the empty database after
  \<^verbatim>\<open>POST /badges {student_id: 1, badge_name: "Rust Basics"}\<close> at time 5.
\<close>

definition one_badge :: db where
  "one_badge =
     fst (post_badges postgres 5
            [''student_id'' \<mapsto> JNum 1, ''badge_name'' \<mapsto> JStr ''Rust Basics''] empty_db)"


section \<open>Statements on the table\<close>

lemma update_where_total:
  "update_where p (\<lambda>r. Inr (g r)) tbl =
     Inr (map (\<lambda>r. if p r then g r else r) tbl, map g (filter p tbl))"
  by (induction tbl) auto

lemma update_where_none: "\<forall>r \<in> set tbl. \<not> p r \<Longrightarrow> update_where p f tbl = Inr (tbl, [])"
  by (induction tbl) auto

lemma update_where_no_rows: "update_where p f tbl = Inr (tbl', []) \<Longrightarrow> tbl' = tbl"
  by (induction tbl arbitrary: tbl') (auto split: if_splits sum.splits prod.splits)

lemma filter_find_None: "find p xs = None \<Longrightarrow> filter p xs = []"
  by (induction xs) (auto split: if_splits)

lemma filter_find_Some: "find p xs = Some r \<Longrightarrow> \<exists>rest. filter p xs = r # rest"
  by (induction xs) (auto split: if_splits)

lemma one_badge_eq:
  "one_badge =
     \<lparr>table = [\<lparr>row_id = 1, student_id = 1, badge_name = ''Rust Basics'', badge_description = None,
                verified = False, created_at = 5, updated_at = 5\<rparr>],
      next_id = 2, clock = 5,
      queries = [(InsertBadge, [JNum 1, JStr ''Rust Basics'', JNull, JBool False])]\<rparr>"
  by (simp add: one_badge_def post_badges_def pool_query_def exec_def empty_db_def postgres_def
        bind_param_def param_def bind_def column_type_def store_def param_of_def or_null_def
        not_not_def in_int8_def first_row_def Let_def)

lemma int8in_postgres_1: "int8in postgres (JStr ''1'') = Some 1"
  by (simp add: postgres_def decimal_def in_int8_def)


section \<open>Validation before storage\<close>

lemma collect_absent: "\<forall>k \<in> set ks. b k = None \<Longrightarrow> collect b ks acc = acc"
  by (induction b ks acc rule: collect.induct) auto

text \<open>
  C3. A create request whose \<^verbatim>\<open>student_id\<close> or \<^verbatim>\<open>badge_name\<close> is absent or falsy is
  answered with status 400 and the message "student_id and badge_name are required",
  whatever else the body holds. The database is returned as it was: no statement is sent
  and no row is inserted.
\<close>

theorem post_badges_validation:
  assumes "\<not> truthy (b ''student_id'') \<or> \<not> truthy (b ''badge_name'')"
  shows "post_badges cv dt b d =
           (d, Json 400 False (Some ''student_id and badge_name are required'') None)"
  using assms by (simp add: post_badges_def)

theorem post_badges_validation_witness:
  "post_badges postgres 1
     [''badge_name'' \<mapsto> JStr ''Rust Basics'', ''badge_description'' \<mapsto> JStr ''intro'',
      ''verified'' \<mapsto> JBool True] empty_db
   = (empty_db, Json 400 False (Some ''student_id and badge_name are required'') None)"
  by (rule post_badges_validation) simp

text \<open>
  C7. A partial update whose body has none of the properties \<^verbatim>\<open>badge_name\<close>,
  \<^verbatim>\<open>badge_description\<close>, \<^verbatim>\<open>verified\<close>, \<^verbatim>\<open>student_id\<close> (the empty body among them)
  is answered with status 400 and the message "No fields provided to update". The database
  is returned as it was: no statement is sent, and the request never succeeds as a no-op.
\<close>

theorem put_badge_no_fields:
  assumes "\<forall>k \<in> set allowed. b k = None"
  shows "put_badge cv dt ident b d =
           (d, Json 400 False (Some ''No fields provided to update'') None)"
  using assms by (simp add: put_badge_def collect_absent)

theorem put_badge_no_fields_witness:
  "put_badge postgres 1 ''1'' [''color'' \<mapsto> JStr ''red''] empty_db
   = (empty_db, Json 400 False (Some ''No fields provided to update'') None)"
  by (rule put_badge_no_fields) (simp add: allowed_def)


section \<open>Listing\<close>

lemma pool_query_SelectAll:
  "pool_query cv dt SelectAll [] d =
     (d\<lparr>clock := clock d + dt, queries := queries d @ [(SelectAll, [])]\<rparr>,
      Inr (order_by_created_at_desc (table d)))"
  by (simp add: pool_query_def exec_def Let_def)

text \<open>
  C10. The list route filters only when \<^verbatim>\<open>req.query.student_id\<close> is truthy. When it is
  not (absent, or present and equal to the empty string) the route sends the unfiltered
  statement and answers with every row of the table, newest first.
\<close>

theorem get_badges_falsy_filter:
  "(\<not> truthy q \<longrightarrow>
      get_badges cv dt q d =
        (d\<lparr>clock := clock d + dt, queries := queries d @ [(SelectAll, [])]\<rparr>,
         Json 200 True None (Some (Rows (order_by_created_at_desc (table d))))))
   \<and> get_badges cv dt (Some (JStr [])) d = get_badges cv dt None d
   \<and> mset (order_by_created_at_desc (table d)) = mset (table d)"
  by (simp add: get_badges_def pool_query_SelectAll order_by_created_at_desc_def)

theorem get_badges_falsy_filter_witness:
  "get_badges postgres 2 (Some (JStr [])) one_badge =
     (one_badge\<lparr>clock := 7, queries := queries one_badge @ [(SelectAll, [])]\<rparr>,
      Json 200 True None (Some (Rows
        [\<lparr>row_id = 1, student_id = 1, badge_name = ''Rust Basics'', badge_description = None,
          verified = False, created_at = 5, updated_at = 5\<rparr>])))"
  using get_badges_falsy_filter [of "Some (JStr [])" postgres 2 one_badge]
  by (simp add: one_badge_eq order_by_created_at_desc_def)


section \<open>Partial update\<close>

lemma length_numbered: "length (numbered i xs) = length xs"
  by (induction xs arbitrary: i) auto

lemma collect_supplied:
  "collect b ks (fs, vs, i) =
     (fs @ numbered i (map fst (supplied b ks)),
      vs @ map snd (supplied b ks),
      i + length (supplied b ks))"
proof (induction ks arbitrary: fs vs i)
  case Nil
  show ?case by simp
next
  case (Cons k ks)
  show ?case
  proof (cases "b k")
    case None
    then show ?thesis using Cons.IH by simp
  next
    case (Some v)
    then show ?thesis using Cons.IH [of "fs @ [(k, i)]" "vs @ [v]" "Suc i"] by simp
  qed
qed

lemma param_middle: "param (pre @ v # post) (Suc (length pre)) = Inr v"
  by (simp add: param_def nth_append)

lemma bind_fields_numbered:
  "bind_fields cv (pre @ map snd kvs @ post) (numbered (Suc (length pre)) (map fst kvs))
     = bind_pairs cv kvs"
proof (induction kvs arbitrary: pre)
  case Nil
  show ?case by simp
next
  case (Cons kv kvs)
  obtain k v where kv: "kv = (k, v)" by (cases kv)
  have ih: "bind_fields cv (pre @ v # map snd kvs @ post)
              (numbered (Suc (Suc (length pre))) (map fst kvs)) = bind_pairs cv kvs"
    using Cons.IH [of "pre @ [v]"] by simp
  show ?case
    by (simp add: kv bind_param_def param_middle ih cong: option.case_cong sum.case_cong)
qed

lemma put_statement:
  assumes "collect b allowed ([], [], 1) = (flds, vals, idx)"
  shows "bind_fields cv (vals @ [JStr ident]) flds = bind_pairs cv (supplied b allowed)"
    and "param (vals @ [JStr ident]) idx = Inr (JStr ident)"
    and "length flds = length (supplied b allowed)"
proof -
  let ?S = "supplied b allowed"
  have c: "flds = numbered (Suc 0) (map fst ?S)" "vals = map snd ?S" "idx = Suc (length ?S)"
    using assms by (auto simp add: collect_supplied)
  show "bind_fields cv (vals @ [JStr ident]) flds = bind_pairs cv ?S"
    using bind_fields_numbered [of cv "[]" ?S "[JStr ident]"] by (simp add: c)
  show "param (vals @ [JStr ident]) idx = Inr (JStr ident)"
    using param_middle [of vals "JStr ident" "[]"] by (simp add: c)
  show "length flds = length ?S" by (simp add: c length_numbered)
qed

lemma pool_query_UpdateSet:
  assumes "collect b allowed ([], [], 1) = (flds, vals, idx)"
  shows "pool_query cv dt (UpdateSet flds idx) (vals @ [JStr ident]) d =
     (let d1 = d\<lparr>clock := clock d + dt, queries := queries d @ [(UpdateSet flds idx, vals @ [JStr ident])]\<rparr>
      in case bind_pairs cv (supplied b allowed) of
           Inl e \<Rightarrow> (d1, Inl e)
         | Inr as \<Rightarrow>
            (case bind cv BigInt (JStr ident) of
               Inl e \<Rightarrow> (d1, Inl e)
             | Inr sv \<Rightarrow>
                (case update_where (\<lambda>r. eq_bigint sv (row_id r))
                            (\<lambda>r. case assign as r of
                                   Inl e \<Rightarrow> Inl e
                                 | Inr r' \<Rightarrow> Inr (update_updated_at_column (clock d + dt) r')) (table d) of
                   Inl e \<Rightarrow> (d1, Inl e)
                 | Inr (tbl', out) \<Rightarrow> (d1\<lparr>table := tbl'\<rparr>, Inr out))))"
  by (simp add: pool_query_def exec_def Let_def put_statement [OF assms] bind_param_def
           split: sum.splits prod.splits)

lemma storable_name: "storable cv ''badge_name'' (Some v) \<Longrightarrow> \<exists>s. bind cv VarChar255 v = Inr (SText s)"
  by (auto simp: storable_def column_type_def bind_def split: sum.splits if_splits option.splits)

lemma storable_verified: "storable cv ''verified'' (Some v) \<Longrightarrow> \<exists>c. bind cv Boolean v = Inr (SBool c)"
  by (auto simp: storable_def column_type_def bind_def split: sum.splits if_splits option.splits json.splits)

lemma storable_student: "storable cv ''student_id'' (Some v) \<Longrightarrow> \<exists>m. bind cv BigInt v = Inr (SInt m)"
  by (auto simp: storable_def column_type_def bind_def split: sum.splits if_splits option.splits)

lemma storable_description:
  "storable cv ''badge_description'' (Some v) \<Longrightarrow>
     bind cv Text v = Inr SNull \<or> (\<exists>s. bind cv Text v = Inr (SText s))"
  by (auto simp: storable_def column_type_def bind_def split: sum.splits if_splits option.splits)

lemma storable_assign:
  assumes "\<forall>k \<in> set allowed. storable cv k (b k)"
  shows "\<exists>as. bind_pairs cv (supplied b allowed) = Inr as \<and>
           (\<forall>r. assign as r = Inr ((merged cv b now r)\<lparr>updated_at := updated_at r\<rparr>))"
  using assms
  apply (cases "b ''badge_name''"; cases "b ''badge_description''"; cases "b ''verified''"; cases "b ''student_id''")
  apply (simp_all add: allowed_def)
  apply (auto dest!: storable_name storable_verified storable_student storable_description
              simp: store_def column_type_def merged_def)
  done


lemma put_badge_collect:
  assumes "collect b allowed ([], [], 1) = (flds, vals, idx)"
  shows "put_badge cv dt ident b d =
     (if flds = [] then (d, Json 400 False (Some ''No fields provided to update'') None)
      else case pool_query cv dt (UpdateSet flds idx) (vals @ [JStr ident]) d of
             (d', Inl e) \<Rightarrow> (d', Next e)
           | (d', Inr rs) \<Rightarrow>
               if rs = [] then (d', Json 404 False (Some ''Badge not found'') None)
               else (d', Json 200 True None (first_row rs)))"
  using assms by (simp add: put_badge_def)

lemma put_badge_table_unchanged:
  assumes "\<forall>r. snd (put_badge cv dt ident b d) \<noteq> Json 200 True None (Some (Row r))"
  shows "table (fst (put_badge cv dt ident b d)) = table d"
proof -
  obtain flds vals idx where c: "collect b allowed ([], [], 1) = (flds, vals, idx)"
    by (cases "collect b allowed ([], [], 1)") auto
  show ?thesis
  proof (cases "exec cv (clock d + dt) (UpdateSet flds idx) (vals @ [JStr ident]) (table d) (next_id d)")
    case (Inl e)
    then show ?thesis by (simp add: put_badge_collect [OF c] pool_query_def Let_def)
  next
    case (Inr res)
    obtain tbl' nid out where res: "res = (tbl', nid, out)" by (cases res) auto
    show ?thesis
    proof (cases "flds = []")
      case True
      then show ?thesis by (simp add: put_badge_collect [OF c])
    next
      case False
      have "out = []"
        using assms False Inr res
        by (cases out) (simp_all add: put_badge_collect [OF c] pool_query_def Let_def first_row_def)
      then have "tbl' = table d"
        using Inr res
        by (auto simp: exec_def split: sum.splits prod.splits dest: update_where_no_rows)
      then show ?thesis
        using False Inr res \<open>out = []\<close> by (simp add: put_badge_collect [OF c] pool_query_def Let_def)
    qed
  qed
qed

lemma put_badge_accepted:
  assumes "int8in cv (JStr ident) = Some n"
      and "(\<forall>k \<in> set allowed. storable cv k (b k)) \<and> (\<exists>k \<in> set allowed. b k \<noteq> None)"
  shows "table (fst (put_badge cv dt ident b d)) =
           map (\<lambda>r. if row_id r = n then merged cv b (clock d + dt) r else r) (table d)
       \<and> snd (put_badge cv dt ident b d) =
           (case badge_with_id d n of
              None \<Rightarrow> Json 404 False (Some ''Badge not found'') None
            | Some r \<Rightarrow> Json 200 True None (Some (Row (merged cv b (clock d + dt) r))))"
proof (intro conjI)
  obtain flds vals idx where c: "collect b allowed ([], [], 1) = (flds, vals, idx)"
    by (cases "collect b allowed ([], [], 1)") auto
  let ?now = "clock d + dt"
  obtain as where as: "bind_pairs cv (supplied b allowed) = Inr as"
      "\<And>r. assign as r = Inr ((merged cv b ?now r)\<lparr>updated_at := updated_at r\<rparr>)"
    using storable_assign [of cv b ?now] assms(2) by blast
  have upd: "\<And>r. update_updated_at_column ?now ((merged cv b ?now r)\<lparr>updated_at := updated_at r\<rparr>)
               = merged cv b ?now r"
    by (simp add: update_updated_at_column_def merged_def)
  have idb: "bind cv BigInt (JStr ident) = Inr (SInt n)"
    using assms(1) by (simp add: bind_def)
  have ne: "flds \<noteq> []"
    using assms(2) put_statement(3) [OF c] by (cases "supplied b allowed") (auto simp: allowed_def split: option.splits)
  have q: "pool_query cv dt (UpdateSet flds idx) (vals @ [JStr ident]) d =
        (d\<lparr>clock := ?now, queries := queries d @ [(UpdateSet flds idx, vals @ [JStr ident])],
           table := map (\<lambda>r. if row_id r = n then merged cv b ?now r else r) (table d)\<rparr>,
         Inr (map (merged cv b ?now) (filter (\<lambda>r. row_id r = n) (table d))))"
    by (simp add: pool_query_UpdateSet [OF c] as idb upd update_where_total eq_bigint_def eq_commute)
  show "table (fst (put_badge cv dt ident b d)) =
          map (\<lambda>r. if row_id r = n then merged cv b ?now r else r) (table d)"
    using ne by (simp add: put_badge_collect [OF c] q)
  show "snd (put_badge cv dt ident b d) =
          (case badge_with_id d n of
             None \<Rightarrow> Json 404 False (Some ''Badge not found'') None
           | Some r \<Rightarrow> Json 200 True None (Some (Row (merged cv b ?now r))))"
  proof (cases "badge_with_id d n")
    case None
    then have "filter (\<lambda>r. row_id r = n) (table d) = []"
      by (simp add: badge_with_id_def filter_find_None)
    then show ?thesis using ne None by (simp add: put_badge_collect [OF c] q)
  next
    case (Some r)
    then obtain rest where "filter (\<lambda>r. row_id r = n) (table d) = r # rest"
      using filter_find_Some [of "\<lambda>r. row_id r = n" "table d" r] by (auto simp: badge_with_id_def)
    then show ?thesis using ne Some by (simp add: put_badge_collect [OF c] q first_row_def)
  qed
qed

text \<open>
  C1, amended. Let the path parameter denote the id \<open>n\<close>. When the body has at least one of
  the four allowed properties and the database accepts every value supplied for them (it
  converts it to the column's type, and it is not null for a \<^verbatim>\<open>NOT NULL\<close> column), the
  partial update replaces each row with id \<open>n\<close> by its \<open>merged\<close> row (the allowed fields
  present in the body take the supplied values, by presence and not by value; every other
  field stays, but \<^verbatim>\<open>updated_at\<close>, which is refreshed) and leaves every other row as it
  was; it answers 200 with the updated row, or 404 when no row has id \<open>n\<close>. Whenever the
  answer is not a success the table is unchanged. In particular a body with
  \<^verbatim>\<open>badge_name\<close> alone changes \<^verbatim>\<open>badge_name\<close> and \<^verbatim>\<open>updated_at\<close> only.
\<close>

theorem put_badge_partial_update:
  assumes "int8in cv (JStr ident) = Some n"
  shows "((\<forall>k \<in> set allowed. storable cv k (b k)) \<and> (\<exists>k \<in> set allowed. b k \<noteq> None) \<longrightarrow>
            table (fst (put_badge cv dt ident b d)) =
              map (\<lambda>r. if row_id r = n then merged cv b (clock d + dt) r else r) (table d)
          \<and> snd (put_badge cv dt ident b d) =
              (case badge_with_id d n of
                 None \<Rightarrow> Json 404 False (Some ''Badge not found'') None
               | Some r \<Rightarrow> Json 200 True None (Some (Row (merged cv b (clock d + dt) r)))))
       \<and> ((\<forall>x. snd (put_badge cv dt' ident' b' d') \<noteq> Json 200 True None (Some (Row x))) \<longrightarrow>
            table (fst (put_badge cv dt' ident' b' d')) = table d')
       \<and> (b ''badge_name'' = Some v \<and> b ''badge_description'' = None \<and> b ''verified'' = None
            \<and> b ''student_id'' = None \<and> bind cv VarChar255 v = Inr (SText s) \<longrightarrow>
            merged cv b now r = r\<lparr>badge_name := s, updated_at := now\<rparr>)"
proof (intro conjI impI)
  assume h: "(\<forall>k \<in> set allowed. storable cv k (b k)) \<and> (\<exists>k \<in> set allowed. b k \<noteq> None)"
  show "table (fst (put_badge cv dt ident b d)) =
          map (\<lambda>r. if row_id r = n then merged cv b (clock d + dt) r else r) (table d)"
    using put_badge_accepted [OF assms h] by simp
  show "snd (put_badge cv dt ident b d) =
          (case badge_with_id d n of
             None \<Rightarrow> Json 404 False (Some ''Badge not found'') None
           | Some r \<Rightarrow> Json 200 True None (Some (Row (merged cv b (clock d + dt) r))))"
    using put_badge_accepted [OF assms h] by simp
next
  assume "\<forall>x. snd (put_badge cv dt' ident' b' d') \<noteq> Json 200 True None (Some (Row x))"
  then show "table (fst (put_badge cv dt' ident' b' d')) = table d'"
    by (rule put_badge_table_unchanged)
next
  assume "b ''badge_name'' = Some v \<and> b ''badge_description'' = None \<and> b ''verified'' = None
            \<and> b ''student_id'' = None \<and> bind cv VarChar255 v = Inr (SText s)"
  then show "merged cv b now r = r\<lparr>badge_name := s, updated_at := now\<rparr>"
    by (simp add: merged_def)
qed

lemma put_badge_null_name:
  "put_badge postgres 3 ''1'' [''badge_name'' \<mapsto> JNull] one_badge =
     (one_badge\<lparr>clock := 8,
        queries := queries one_badge @ [(UpdateSet [(''badge_name'', 1)] 2, [JNull, JStr ''1''])]\<rparr>,
      Next (NotNullViolation ''badge_name''))"
  by (simp add: put_badge_def allowed_def pool_query_def exec_def bind_param_def param_def bind_def
        column_type_def store_def eq_bigint_def one_badge_eq int8in_postgres_1 Let_def)

theorem put_badge_partial_update_witness:
  "table (fst (put_badge postgres 3 ''1'' [''badge_name'' \<mapsto> JStr ''Advanced Rust''] one_badge)) =
     [\<lparr>row_id = 1, student_id = 1, badge_name = ''Advanced Rust'', badge_description = None,
       verified = False, created_at = 5, updated_at = 8\<rparr>]
   \<and> snd (put_badge postgres 3 ''1'' [''badge_name'' \<mapsto> JStr ''Advanced Rust''] one_badge) =
       Json 200 True None (Some (Row
         \<lparr>row_id = 1, student_id = 1, badge_name = ''Advanced Rust'', badge_description = None,
          verified = False, created_at = 5, updated_at = 8\<rparr>))
   \<and> table (fst (put_badge postgres 3 ''1'' [''badge_name'' \<mapsto> JNull] one_badge)) = table one_badge"
proof -
  note t = put_badge_partial_update [OF int8in_postgres_1,
             of "[''badge_name'' \<mapsto> JStr ''Advanced Rust'']" 3 one_badge
                3 "''1''" "[''badge_name'' \<mapsto> JNull]" one_badge
                "JStr ''Advanced Rust''" "''Advanced Rust''"]
  have rows: "table one_badge =
      [\<lparr>row_id = 1, student_id = 1, badge_name = ''Rust Basics'', badge_description = None,
        verified = False, created_at = 5, updated_at = 5\<rparr>]"
    and now: "clock one_badge = 5"
    by (simp_all add: one_badge_eq)
  have name: "varcharin postgres (JStr ''Advanced Rust'') = Some ''Advanced Rust''"
    by (simp add: postgres_def)
  show ?thesis
    using t
    by (simp add: put_badge_null_name allowed_def storable_def column_type_def bind_def name
          merged_def badge_with_id_def rows now)
qed

text \<open>
  C1 as stated fails: the body \<^verbatim>\<open>{badge_name: null}\<close> has \<^verbatim>\<open>badge_name\<close> as an own
  property, but the column is \<^verbatim>\<open>NOT NULL\<close>; the statement is rejected, the error goes to
  \<^verbatim>\<open>next(err)\<close> and the row keeps its name.
\<close>

theorem put_badge_null_name_counterexample:
  "put_badge postgres 3 ''1'' [''badge_name'' \<mapsto> JNull] one_badge =
     (one_badge\<lparr>clock := 8,
        queries := queries one_badge @ [(UpdateSet [(''badge_name'', 1)] 2, [JNull, JStr ''1''])]\<rparr>,
      Next (NotNullViolation ''badge_name''))
   \<and> map badge_name (table (fst (put_badge postgres 3 ''1'' [''badge_name'' \<mapsto> JNull] one_badge)))
       = [''Rust Basics'']"
  by (simp add: put_badge_null_name, simp add: one_badge_eq)


section \<open>Verifying\<close>

lemma find_map_same_id:
  assumes "\<And>r. row_id (g r) = row_id r"
  shows "find (\<lambda>r. row_id r = n) (map (\<lambda>r. if row_id r = n then g r else r) xs)
           = map_option g (find (\<lambda>r. row_id r = n) xs)"
  using assms by (induction xs) auto

lemma bind_id: "int8in cv (JStr ident) = Some n \<Longrightarrow> bind cv BigInt (JStr ident) = Inr (SInt n)"
  by (simp add: bind_def)

lemma bind_bool: "bind cv Boolean (JBool c) = Inr (SBool c)"
  by (simp add: bind_def)

lemma eq_bigint_SInt: "eq_bigint (SInt n) m = (m = n)"
  by (simp add: eq_bigint_def)

lemma pool_query_ToggleVerified:
  assumes "int8in cv (JStr ident) = Some n"
  shows "pool_query cv dt ToggleVerified [JStr ident] d =
     (d\<lparr>clock := clock d + dt, queries := queries d @ [(ToggleVerified, [JStr ident])],
        table := map (\<lambda>r. if row_id r = n then r\<lparr>verified := \<not> verified r, updated_at := clock d + dt\<rparr> else r) (table d)\<rparr>,
      Inr (map (\<lambda>r. r\<lparr>verified := \<not> verified r, updated_at := clock d + dt\<rparr>)
             (filter (\<lambda>r. row_id r = n) (table d))))"
  by (simp add: pool_query_def exec_def Let_def bind_param_def param_def bind_id [OF assms]
        update_where_total eq_bigint_SInt update_updated_at_column_def)

lemma pool_query_UpdateVerified:
  assumes "int8in cv (JStr ident) = Some n"
  shows "pool_query cv dt UpdateVerified [JBool c, JStr ident] d =
     (d\<lparr>clock := clock d + dt, queries := queries d @ [(UpdateVerified, [JBool c, JStr ident])],
        table := map (\<lambda>r. if row_id r = n then r\<lparr>verified := c, updated_at := clock d + dt\<rparr> else r) (table d)\<rparr>,
      Inr (map (\<lambda>r. r\<lparr>verified := c, updated_at := clock d + dt\<rparr>)
             (filter (\<lambda>r. row_id r = n) (table d))))"
  by (simp add: pool_query_def exec_def Let_def bind_param_def param_def bind_id [OF assms]
        update_where_total eq_bigint_SInt update_updated_at_column_def store_def bind_bool)

lemma patch_verify_toggle:
  assumes "int8in cv (JStr ident) = Some n" and "\<not> is_boolean (b ''verified'')"
  shows "patch_verify cv dt ident b d =
     (d\<lparr>clock := clock d + dt, queries := queries d @ [(ToggleVerified, [JStr ident])],
        table := map (\<lambda>r. if row_id r = n then r\<lparr>verified := \<not> verified r, updated_at := clock d + dt\<rparr> else r) (table d)\<rparr>,
      case badge_with_id d n of
        None \<Rightarrow> Json 404 False (Some ''Badge not found'') None
      | Some r \<Rightarrow> Json 200 True None (Some (Row (r\<lparr>verified := \<not> verified r, updated_at := clock d + dt\<rparr>))))"
proof (cases "badge_with_id d n")
  case None
  then have "filter (\<lambda>r. row_id r = n) (table d) = []"
    by (simp add: badge_with_id_def filter_find_None)
  then show ?thesis
    using assms(2) None by (simp add: patch_verify_def pool_query_ToggleVerified [OF assms(1)])
next
  case (Some r)
  then obtain rest where "filter (\<lambda>r. row_id r = n) (table d) = r # rest"
    using filter_find_Some [of "\<lambda>r. row_id r = n" "table d" r] by (auto simp: badge_with_id_def)
  then show ?thesis
    using assms(2) Some
    by (simp add: patch_verify_def pool_query_ToggleVerified [OF assms(1)] first_row_def)
qed

lemma patch_verify_set:
  assumes "int8in cv (JStr ident) = Some n" and "b ''verified'' = Some (JBool c)"
  shows "patch_verify cv dt ident b d =
     (d\<lparr>clock := clock d + dt, queries := queries d @ [(UpdateVerified, [JBool c, JStr ident])],
        table := map (\<lambda>r. if row_id r = n then r\<lparr>verified := c, updated_at := clock d + dt\<rparr> else r) (table d)\<rparr>,
      case badge_with_id d n of
        None \<Rightarrow> Json 404 False (Some ''Badge not found'') None
      | Some r \<Rightarrow> Json 200 True None (Some (Row (r\<lparr>verified := c, updated_at := clock d + dt\<rparr>))))"
proof (cases "badge_with_id d n")
  case None
  then have "filter (\<lambda>r. row_id r = n) (table d) = []"
    by (simp add: badge_with_id_def filter_find_None)
  then show ?thesis
    using assms(2) None
    by (simp add: patch_verify_def pool_query_UpdateVerified [OF assms(1)] param_of_def)
next
  case (Some r)
  then obtain rest where "filter (\<lambda>r. row_id r = n) (table d) = r # rest"
    using filter_find_Some [of "\<lambda>r. row_id r = n" "table d" r] by (auto simp: badge_with_id_def)
  then show ?thesis
    using assms(2) Some
    by (simp add: patch_verify_def pool_query_UpdateVerified [OF assms(1)] first_row_def param_of_def)
qed

text \<open>
  C2. Let the path parameter denote the id of a stored badge. When the body's
  \<^verbatim>\<open>verified\<close> is a boolean, the verify route sets the field to exactly that value; when
  it is absent or not a boolean, the route sets the field to the negation of the value the
  row holds, computed by the database inside the one statement the route sends. In both
  cases \<^verbatim>\<open>updated_at\<close> is refreshed, no other row and no other field changes, and the
  answer is 200 with the updated row.
\<close>

theorem patch_verify_sets_or_toggles:
  assumes "int8in cv (JStr ident) = Some n" and "badge_with_id d n = Some r"
  shows "(b ''verified'' = Some (JBool c) \<longrightarrow>
            patch_verify cv dt ident b d =
              (d\<lparr>clock := clock d + dt,
                 queries := queries d @ [(UpdateVerified, [JBool c, JStr ident])],
                 table := map (\<lambda>x. if row_id x = n then x\<lparr>verified := c, updated_at := clock d + dt\<rparr> else x)
                            (table d)\<rparr>,
               Json 200 True None (Some (Row (r\<lparr>verified := c, updated_at := clock d + dt\<rparr>)))))
       \<and> (\<not> is_boolean (b ''verified'') \<longrightarrow>
            patch_verify cv dt ident b d =
              (d\<lparr>clock := clock d + dt,
                 queries := queries d @ [(ToggleVerified, [JStr ident])],
                 table := map (\<lambda>x. if row_id x = n then x\<lparr>verified := \<not> verified x, updated_at := clock d + dt\<rparr> else x)
                            (table d)\<rparr>,
               Json 200 True None (Some (Row (r\<lparr>verified := \<not> verified r, updated_at := clock d + dt\<rparr>)))))"
  using assms by (simp add: patch_verify_toggle patch_verify_set)

lemma badge_with_id_one_badge:
  "badge_with_id one_badge 1 =
     Some \<lparr>row_id = 1, student_id = 1, badge_name = ''Rust Basics'', badge_description = None,
           verified = False, created_at = 5, updated_at = 5\<rparr>"
  by (simp add: badge_with_id_def one_badge_eq)

theorem patch_verify_sets_or_toggles_witness:
  "snd (patch_verify postgres 2 ''1'' [''verified'' \<mapsto> JBool True] one_badge) =
     Json 200 True None (Some (Row
       \<lparr>row_id = 1, student_id = 1, badge_name = ''Rust Basics'', badge_description = None,
        verified = True, created_at = 5, updated_at = 7\<rparr>))
   \<and> snd (patch_verify postgres 2 ''1'' [''verified'' \<mapsto> JStr ''yes''] one_badge) =
     Json 200 True None (Some (Row
       \<lparr>row_id = 1, student_id = 1, badge_name = ''Rust Basics'', badge_description = None,
        verified = True, created_at = 5, updated_at = 7\<rparr>))"
  using patch_verify_sets_or_toggles [OF int8in_postgres_1 badge_with_id_one_badge,
          of "[''verified'' \<mapsto> JBool True]" True 2]
        patch_verify_sets_or_toggles [OF int8in_postgres_1 badge_with_id_one_badge,
          of "[''verified'' \<mapsto> JStr ''yes'']" True 2]
  by (simp add: one_badge_eq)

text \<open>
  C9. Let the path parameter denote the id of a stored badge. Two verify requests in
  immediate succession, neither with a boolean \<^verbatim>\<open>verified\<close> in its body, leave the
  \<^verbatim>\<open>verified\<close> field of every row as it was: the second answer is the original row with
  only \<^verbatim>\<open>updated_at\<close> refreshed.
\<close>

theorem patch_verify_twice:
  assumes "int8in cv (JStr ident) = Some n" and "badge_with_id d n = Some r"
      and "\<not> is_boolean (b1 ''verified'')" and "\<not> is_boolean (b2 ''verified'')"
  shows "snd (patch_verify cv dt2 ident b2 (fst (patch_verify cv dt1 ident b1 d))) =
           Json 200 True None (Some (Row (r\<lparr>updated_at := clock d + dt1 + dt2\<rparr>)))
       \<and> table (fst (patch_verify cv dt2 ident b2 (fst (patch_verify cv dt1 ident b1 d)))) =
           map (\<lambda>x. if row_id x = n then x\<lparr>updated_at := clock d + dt1 + dt2\<rparr> else x) (table d)
       \<and> map verified (table (fst (patch_verify cv dt2 ident b2 (fst (patch_verify cv dt1 ident b1 d)))))
           = map verified (table d)"
proof -
  let ?t1 = "clock d + dt1"
  let ?g = "\<lambda>x. x\<lparr>verified := \<not> verified x, updated_at := ?t1\<rparr>"
  let ?d1 = "fst (patch_verify cv dt1 ident b1 d)"
  have d1: "?d1 = d\<lparr>clock := ?t1, queries := queries d @ [(ToggleVerified, [JStr ident])],
                    table := map (\<lambda>x. if row_id x = n then ?g x else x) (table d)\<rparr>"
    by (simp add: patch_verify_toggle [where b = b1, OF assms(1) assms(3)])
  have b1: "badge_with_id ?d1 n = Some (?g r)"
    using assms(2) find_map_same_id [of ?g n "table d"] by (simp add: d1 badge_with_id_def)
  have second: "patch_verify cv dt2 ident b2 ?d1 =
      (?d1\<lparr>clock := clock ?d1 + dt2, queries := queries ?d1 @ [(ToggleVerified, [JStr ident])],
           table := map (\<lambda>x. if row_id x = n then x\<lparr>verified := \<not> verified x, updated_at := clock ?d1 + dt2\<rparr> else x) (table ?d1)\<rparr>,
       Json 200 True None (Some (Row ((?g r)\<lparr>verified := \<not> verified (?g r), updated_at := clock ?d1 + dt2\<rparr>))))"
    by (simp only: patch_verify_toggle [where b = b2, OF assms(1) assms(4)] b1 option.case)
  have tbl: "table (fst (patch_verify cv dt2 ident b2 ?d1)) =
           map (\<lambda>x. if row_id x = n then x\<lparr>updated_at := clock d + dt1 + dt2\<rparr> else x) (table d)"
    unfolding second by (simp add: d1 o_def cong: if_cong)
  show ?thesis
  proof (intro conjI)
    show "snd (patch_verify cv dt2 ident b2 ?d1) =
           Json 200 True None (Some (Row (r\<lparr>updated_at := clock d + dt1 + dt2\<rparr>)))"
      unfolding second by (simp add: d1)
    show "table (fst (patch_verify cv dt2 ident b2 ?d1)) =
           map (\<lambda>x. if row_id x = n then x\<lparr>updated_at := clock d + dt1 + dt2\<rparr> else x) (table d)"
      by (rule tbl)
    show "map verified (table (fst (patch_verify cv dt2 ident b2 ?d1))) = map verified (table d)"
      unfolding tbl by (simp add: o_def cong: if_cong)
  qed
qed

theorem patch_verify_twice_witness:
  "snd (patch_verify postgres 1 ''1'' Map.empty (fst (patch_verify postgres 2 ''1'' Map.empty one_badge))) =
     Json 200 True None (Some (Row
       \<lparr>row_id = 1, student_id = 1, badge_name = ''Rust Basics'', badge_description = None,
        verified = False, created_at = 5, updated_at = 8\<rparr>))"
  using patch_verify_twice [OF int8in_postgres_1 badge_with_id_one_badge, of Map.empty Map.empty 1 2]
  by (simp add: one_badge_eq)


section \<open>Creating\<close>

lemma truthy_not_null: "truthy (Some v) \<Longrightarrow> v \<noteq> JNull"
  by (cases v) auto

lemma bind_text_cases: "bind cv Text v = Inr dv \<Longrightarrow> dv = SNull \<or> (\<exists>t. dv = SText t)"
  by (auto simp: bind_def split: if_splits option.splits)

lemma post_badges_accepted:
  assumes "b ''student_id'' = Some sv" and "truthy (Some sv)" and "int8in cv sv = Some n"
      and "b ''badge_name'' = Some nv" and "truthy (Some nv)" and "varcharin cv nv = Some s"
      and "bind cv Text (or_null (b ''badge_description'')) = Inr dv"
  shows "post_badges cv dt b d =
           (let new = \<lparr>row_id = next_id d, student_id = n, badge_name = s,
                       badge_description = (case dv of SText t \<Rightarrow> Some t | _ \<Rightarrow> None),
                       verified = (case b ''verified'' of
                                     None \<Rightarrow> False
                                   | Some (JBool c) \<Rightarrow> c
                                   | Some v \<Rightarrow> truthy (Some v)),
                       created_at = clock d + dt, updated_at = clock d + dt\<rparr>
            in (d\<lparr>clock := clock d + dt,
                  queries := queries d @
                    [(InsertBadge, [sv, nv, or_null (b ''badge_description''), not_not (b ''verified'')])],
                  table := table d @ [new],
                  next_id := next_id d + 1\<rparr>,
                Json 201 True None (Some (Row new))))"
proof -
  have sid: "bind cv BigInt sv = Inr (SInt n)"
    using assms(2,3) by (simp add: bind_def truthy_not_null)
  have nm: "bind cv VarChar255 nv = Inr (SText s)"
    using assms(5,6) by (simp add: bind_def truthy_not_null)
  have ver: "bind cv Boolean (not_not (b ''verified'')) = Inr (SBool (truthy (b ''verified'')))"
    by (simp add: not_not_def bind_def)
  have tr: "truthy (b ''verified'') =
        (case b ''verified'' of None \<Rightarrow> False | Some (JBool c) \<Rightarrow> c | Some v \<Rightarrow> truthy (Some v))"
    by (simp split: option.splits json.splits)
  have ex: "exec cv (clock d + dt) InsertBadge
              [sv, nv, or_null (b ''badge_description''), not_not (b ''verified'')] (table d) (next_id d) =
        (let new = \<lparr>row_id = next_id d, student_id = n, badge_name = s,
                    badge_description = (case dv of SText t \<Rightarrow> Some t | _ \<Rightarrow> None),
                    verified = truthy (b ''verified''),
                    created_at = clock d + dt, updated_at = clock d + dt\<rparr>
         in Inr (table d @ [new], next_id d + 1, [new]))"
    using bind_text_cases [OF assms(7)]
    by (auto simp: exec_def bind_param_def param_def column_type_def sid nm ver assms(7) store_def Let_def)
  show ?thesis
    using assms(1,2,4,5)
    by (simp add: post_badges_def pool_query_def ex [unfolded Let_def] Let_def param_of_def
          first_row_def tr [symmetric])
qed

lemma post_badges_description_rejected:
  assumes "b ''student_id'' = Some sv" and "truthy (Some sv)" and "int8in cv sv = Some n"
      and "b ''badge_name'' = Some nv" and "truthy (Some nv)" and "varcharin cv nv = Some s"
      and "bind cv Text (or_null (b ''badge_description'')) = Inl e"
  shows "post_badges cv dt b d =
           (d\<lparr>clock := clock d + dt,
              queries := queries d @
                [(InsertBadge, [sv, nv, or_null (b ''badge_description''), not_not (b ''verified'')])]\<rparr>,
            Next e)"
proof -
  have sid: "bind cv BigInt sv = Inr (SInt n)"
    using assms(2,3) by (simp add: bind_def truthy_not_null)
  have nm: "bind cv VarChar255 nv = Inr (SText s)"
    using assms(5,6) by (simp add: bind_def truthy_not_null)
  have ex: "exec cv (clock d + dt) InsertBadge
              [sv, nv, or_null (b ''badge_description''), not_not (b ''verified'')] (table d) (next_id d)
            = Inl e"
    by (simp add: exec_def bind_param_def param_def column_type_def sid nm assms(7))
  show ?thesis
    using assms(1,2,4,5) by (simp add: post_badges_def pool_query_def ex Let_def param_of_def)
qed

text \<open>
  C8, amended. Take a create request whose \<^verbatim>\<open>student_id\<close> and \<^verbatim>\<open>badge_name\<close> are truthy
  and accepted by the database for their columns. When the database also accepts the
  description the route sends (the body's, or null when it is absent or falsy), the request
  inserts one row and answers 201 with that row: its \<^verbatim>\<open>verified\<close> is false when the body
  has no \<^verbatim>\<open>verified\<close> and the supplied boolean when it has one, it takes the next id, and
  \<^verbatim>\<open>created_at\<close> and \<^verbatim>\<open>updated_at\<close> are the time of the statement. When the database
  rejects the description, the route hands the database's error to \<^verbatim>\<open>next(err)\<close> and no
  row is inserted.
\<close>

theorem post_badges_creates:
  assumes "b ''student_id'' = Some sv" and "truthy (Some sv)" and "int8in cv sv = Some n"
      and "b ''badge_name'' = Some nv" and "truthy (Some nv)" and "varcharin cv nv = Some s"
  shows "(bind cv Text (or_null (b ''badge_description'')) = Inr dv \<longrightarrow>
            post_badges cv dt b d =
              (let new = \<lparr>row_id = next_id d, student_id = n, badge_name = s,
                          badge_description = (case dv of SText t \<Rightarrow> Some t | _ \<Rightarrow> None),
                          verified = (case b ''verified'' of
                                        None \<Rightarrow> False
                                      | Some (JBool c) \<Rightarrow> c
                                      | Some v \<Rightarrow> truthy (Some v)),
                          created_at = clock d + dt, updated_at = clock d + dt\<rparr>
               in (d\<lparr>clock := clock d + dt,
                     queries := queries d @
                       [(InsertBadge, [sv, nv, or_null (b ''badge_description''), not_not (b ''verified'')])],
                     table := table d @ [new],
                     next_id := next_id d + 1\<rparr>,
                   Json 201 True None (Some (Row new)))))
       \<and> (bind cv Text (or_null (b ''badge_description'')) = Inl e \<longrightarrow>
            post_badges cv dt b d =
              (d\<lparr>clock := clock d + dt,
                 queries := queries d @
                   [(InsertBadge, [sv, nv, or_null (b ''badge_description''), not_not (b ''verified'')])]\<rparr>,
               Next e))"
  using post_badges_accepted [OF assms] post_badges_description_rejected [OF assms] by blast

lemma postgres_accepts_rust_basics:
  "int8in postgres (JNum 1) = Some 1"
  "varcharin postgres (JStr ''Rust Basics'') = Some ''Rust Basics''"
  by (simp_all add: postgres_def in_int8_def)

lemma bind_null: "bind cv ty JNull = Inr SNull"
  by (simp add: bind_def)

lemma postgres_rejects_nul:
  "bind postgres Text (JStr [CHR 0x00]) = Inl (InvalidInput Text (JStr [CHR 0x00]))"
  by (simp add: bind_def postgres_def)

theorem post_badges_creates_witness:
  "post_badges postgres 5 [''student_id'' \<mapsto> JNum 1, ''badge_name'' \<mapsto> JStr ''Rust Basics''] empty_db =
     (\<lparr>table = [\<lparr>row_id = 1, student_id = 1, badge_name = ''Rust Basics'', badge_description = None,
                 verified = False, created_at = 5, updated_at = 5\<rparr>],
       next_id = 2, clock = 5,
       queries = [(InsertBadge, [JNum 1, JStr ''Rust Basics'', JNull, JBool False])]\<rparr>,
      Json 201 True None (Some (Row
        \<lparr>row_id = 1, student_id = 1, badge_name = ''Rust Basics'', badge_description = None,
         verified = False, created_at = 5, updated_at = 5\<rparr>)))
   \<and> snd (post_badges postgres 5
            [''student_id'' \<mapsto> JNum 1, ''badge_name'' \<mapsto> JStr ''Rust Basics'',
             ''verified'' \<mapsto> JBool True] empty_db) =
       Json 201 True None (Some (Row
         \<lparr>row_id = 1, student_id = 1, badge_name = ''Rust Basics'', badge_description = None,
          verified = True, created_at = 5, updated_at = 5\<rparr>))
   \<and> table (fst (post_badges postgres 5
            [''student_id'' \<mapsto> JNum 1, ''badge_name'' \<mapsto> JStr ''Rust Basics'',
             ''badge_description'' \<mapsto> JStr [CHR 0x00], ''verified'' \<mapsto> JBool True] empty_db)) = []"
  using post_badges_creates [of "[''student_id'' \<mapsto> JNum 1, ''badge_name'' \<mapsto> JStr ''Rust Basics'']"
          "JNum 1" postgres 1 "JStr ''Rust Basics''" "''Rust Basics''" SNull 5 empty_db]
        post_badges_creates [of "[''student_id'' \<mapsto> JNum 1, ''badge_name'' \<mapsto> JStr ''Rust Basics'',
                                  ''verified'' \<mapsto> JBool True]"
          "JNum 1" postgres 1 "JStr ''Rust Basics''" "''Rust Basics''" SNull 5 empty_db]
        post_badges_creates [of "[''student_id'' \<mapsto> JNum 1, ''badge_name'' \<mapsto> JStr ''Rust Basics'',
                                  ''badge_description'' \<mapsto> JStr [CHR 0x00], ''verified'' \<mapsto> JBool True]"
          "JNum 1" postgres 1 "JStr ''Rust Basics''" "''Rust Basics''" SNull 5 empty_db
          "InvalidInput Text (JStr [CHR 0x00])"]
  by (simp add: postgres_accepts_rust_basics postgres_rejects_nul bind_null or_null_def not_not_def
        empty_db_def Let_def)

text \<open>
  C8 as stated fails. The body
  \<^verbatim>\<open>{student_id: 1, badge_name: "Rust Basics", badge_description: "\u0000"}\<close> has a valid
  \<^verbatim>\<open>student_id\<close> and \<^verbatim>\<open>badge_name\<close>, but the database rejects a text value that holds
  the character U+0000: the route answers with the database's error, not with 201, and no
  row is persisted.
\<close>

theorem post_badges_description_counterexample:
  "post_badges postgres 5
     [''student_id'' \<mapsto> JNum 1, ''badge_name'' \<mapsto> JStr ''Rust Basics'',
      ''badge_description'' \<mapsto> JStr [CHR 0x00]] empty_db =
     (\<lparr>table = [], next_id = 1, clock = 5,
       queries = [(InsertBadge, [JNum 1, JStr ''Rust Basics'', JStr [CHR 0x00], JBool False])]\<rparr>,
      Next (InvalidInput Text (JStr [CHR 0x00])))"
  by (simp add: post_badges_def pool_query_def exec_def bind_param_def param_def bind_def
        column_type_def param_of_def or_null_def not_not_def empty_db_def postgres_def in_int8_def
        Let_def)


section \<open>Ids that match no row\<close>

lemma no_row_with_id: "badge_with_id d n = None \<Longrightarrow> \<forall>r \<in> set (table d). row_id r \<noteq> n"
  by (auto simp: badge_with_id_def find_None_iff)

lemma pool_query_SelectById:
  assumes "int8in cv (JStr ident) = Some n"
  shows "pool_query cv dt SelectById [JStr ident] d =
     (d\<lparr>clock := clock d + dt, queries := queries d @ [(SelectById, [JStr ident])]\<rparr>,
      Inr (filter (\<lambda>r. row_id r = n) (table d)))"
  by (simp add: pool_query_def exec_def Let_def bind_param_def param_def bind_id [OF assms]
        eq_bigint_SInt)

lemma pool_query_DeleteById:
  assumes "int8in cv (JStr ident) = Some n"
  shows "pool_query cv dt DeleteById [JStr ident] d =
     (d\<lparr>clock := clock d + dt, queries := queries d @ [(DeleteById, [JStr ident])],
        table := filter (\<lambda>r. row_id r \<noteq> n) (table d)\<rparr>,
      Inr (filter (\<lambda>r. row_id r = n) (table d)))"
  by (simp add: pool_query_def exec_def Let_def bind_param_def param_def bind_id [OF assms]
        eq_bigint_SInt)

lemma convertible_bind_pairs:
  "(\<forall>k \<in> set ks. convertible cv k (b k)) = (\<exists>as. bind_pairs cv (supplied b ks) = Inr as)"
  by (induction ks) (auto simp: convertible_def split: option.splits sum.splits)

lemma supplied_empty: "(supplied b ks = []) = (\<forall>k \<in> set ks. b k = None)"
  by (induction ks) (auto split: option.splits)

lemma put_badge_not_found:
  assumes "int8in cv (JStr ident) = Some n" and "badge_with_id d n = None"
      and "\<exists>k \<in> set allowed. b k \<noteq> None"
  shows "snd (put_badge cv dt ident b d) =
           (if \<forall>k \<in> set allowed. convertible cv k (b k)
            then Json 404 False (Some ''Badge not found'') None
            else Next (case bind_pairs cv (supplied b allowed) of Inl e \<Rightarrow> e))"
proof -
  obtain flds vals idx where c: "collect b allowed ([], [], 1) = (flds, vals, idx)"
    by (cases "collect b allowed ([], [], 1)") auto
  have ne: "flds \<noteq> []"
    using assms(3) put_statement(3) [OF c] supplied_empty [of b allowed] by auto
  have none: "\<And>f. update_where (\<lambda>r. row_id r = n) f (table d) = Inr (table d, [])"
    using no_row_with_id [OF assms(2)] by (simp add: update_where_none)
  show ?thesis
  proof (cases "\<forall>k \<in> set allowed. convertible cv k (b k)")
    case True
    then obtain as where "bind_pairs cv (supplied b allowed) = Inr as"
      using convertible_bind_pairs [of allowed cv b] by auto
    then show ?thesis
      using True ne
      by (simp add: put_badge_collect [OF c] pool_query_UpdateSet [OF c] bind_id [OF assms(1)]
            eq_bigint_SInt none)
  next
    case False
    then obtain e where "bind_pairs cv (supplied b allowed) = Inl e"
      using convertible_bind_pairs [of allowed cv b] by (cases "bind_pairs cv (supplied b allowed)") auto
    then show ?thesis
      using False ne
      by (simp add: put_badge_collect [OF c] pool_query_UpdateSet [OF c])
  qed
qed

text \<open>
  C5, amended. Let the path parameter be one the database converts to a \<^verbatim>\<open>BIGINT\<close>
  \<open>n\<close>, and let no row have id \<open>n\<close>. Then fetch, verify and delete answer 404
  "Badge not found". The partial update answers 400 when the body has none of the allowed
  fields, 404 when it has one and the database converts every supplied value, and hands
  the database's error to \<^verbatim>\<open>next(err)\<close> otherwise. None of the four changes the table.
\<close>

theorem not_found_responses:
  assumes "int8in cv (JStr ident) = Some n" and "badge_with_id d n = None"
  shows "snd (get_badge cv dt ident d) = Json 404 False (Some ''Badge not found'') None
       \<and> snd (patch_verify cv dt ident b d) = Json 404 False (Some ''Badge not found'') None
       \<and> snd (delete_badge cv dt ident d) = Json 404 False (Some ''Badge not found'') None
       \<and> ((\<forall>k \<in> set allowed. b k = None) \<longrightarrow>
            snd (put_badge cv dt ident b d) = Json 400 False (Some ''No fields provided to update'') None)
       \<and> ((\<exists>k \<in> set allowed. b k \<noteq> None) \<and> (\<forall>k \<in> set allowed. convertible cv k (b k)) \<longrightarrow>
            snd (put_badge cv dt ident b d) = Json 404 False (Some ''Badge not found'') None)
       \<and> ((\<exists>k \<in> set allowed. b k \<noteq> None) \<and> \<not> (\<forall>k \<in> set allowed. convertible cv k (b k)) \<longrightarrow>
            (\<exists>e. snd (put_badge cv dt ident b d) = Next e))
       \<and> table (fst (get_badge cv dt ident d)) = table d
       \<and> table (fst (patch_verify cv dt ident b d)) = table d
       \<and> table (fst (delete_badge cv dt ident d)) = table d
       \<and> table (fst (put_badge cv dt ident b d)) = table d"
proof -
  have none: "filter (\<lambda>r. row_id r = n) (table d) = []"
    using assms(2) by (simp add: badge_with_id_def filter_find_None)
  have all: "filter (\<lambda>r. row_id r \<noteq> n) (table d) = table d"
    using no_row_with_id [OF assms(2)] by (simp add: filter_id_conv)
  have same: "\<And>g. map (\<lambda>r. if row_id r = n then g r else r) (table d) = table d"
    using no_row_with_id [OF assms(2)] by (simp add: map_idI)
  have pv: "patch_verify cv dt ident b d =
              (fst (patch_verify cv dt ident b d), Json 404 False (Some ''Badge not found'') None)
            \<and> table (fst (patch_verify cv dt ident b d)) = table d"
  proof (cases "is_boolean (b ''verified'')")
    case True
    then obtain c where "b ''verified'' = Some (JBool c)"
      by (cases "b ''verified''" rule: is_boolean.cases) auto
    then show ?thesis
      by (simp add: patch_verify_set [OF assms(1)] assms(2) same)
  next
    case False
    then show ?thesis
      by (simp add: patch_verify_toggle [OF assms(1)] assms(2) same)
  qed
  have put_resp: "\<forall>r. snd (put_badge cv dt ident b d) \<noteq> Json 200 True None (Some (Row r))"
  proof (cases "\<forall>k \<in> set allowed. b k = None")
    case True
    then show ?thesis by (simp add: put_badge_def collect_absent)
  next
    case False
    then show ?thesis by (simp add: put_badge_not_found [OF assms])
  qed
  show ?thesis
  proof (intro conjI impI)
    show "snd (get_badge cv dt ident d) = Json 404 False (Some ''Badge not found'') None"
      by (simp add: get_badge_def pool_query_SelectById [OF assms(1)] none)
    show "snd (patch_verify cv dt ident b d) = Json 404 False (Some ''Badge not found'') None"
      using pv by (metis snd_conv)
    show "snd (delete_badge cv dt ident d) = Json 404 False (Some ''Badge not found'') None"
      by (simp add: delete_badge_def pool_query_DeleteById [OF assms(1)] none)
    show "snd (put_badge cv dt ident b d) = Json 400 False (Some ''No fields provided to update'') None"
      if "\<forall>k \<in> set allowed. b k = None"
      using that by (simp add: put_badge_def collect_absent)
    show "snd (put_badge cv dt ident b d) = Json 404 False (Some ''Badge not found'') None"
      if "(\<exists>k \<in> set allowed. b k \<noteq> None) \<and> (\<forall>k \<in> set allowed. convertible cv k (b k))"
      using that put_badge_not_found [OF assms, of b dt] by simp
    show "\<exists>e. snd (put_badge cv dt ident b d) = Next e"
      if "(\<exists>k \<in> set allowed. b k \<noteq> None) \<and> \<not> (\<forall>k \<in> set allowed. convertible cv k (b k))"
      using that put_badge_not_found [OF assms, of b dt] by simp
    show "table (fst (get_badge cv dt ident d)) = table d"
      by (simp add: get_badge_def pool_query_SelectById [OF assms(1)] none)
    show "table (fst (patch_verify cv dt ident b d)) = table d"
      using pv by simp
    show "table (fst (delete_badge cv dt ident d)) = table d"
      by (simp add: delete_badge_def pool_query_DeleteById [OF assms(1)] none all)
    show "table (fst (put_badge cv dt ident b d)) = table d"
      using put_resp by (rule put_badge_table_unchanged)
  qed
qed

lemma int8in_postgres_99: "int8in postgres (JStr ''99'') = Some 99"
  by (simp add: postgres_def decimal_def in_int8_def)

lemma badge_99_absent: "badge_with_id one_badge 99 = None"
  by (simp add: badge_with_id_def one_badge_eq)

theorem not_found_responses_witness:
  "snd (get_badge postgres 1 ''99'' one_badge) = Json 404 False (Some ''Badge not found'') None
   \<and> snd (patch_verify postgres 1 ''99'' Map.empty one_badge) = Json 404 False (Some ''Badge not found'') None
   \<and> snd (delete_badge postgres 1 ''99'' one_badge) = Json 404 False (Some ''Badge not found'') None
   \<and> snd (put_badge postgres 1 ''99'' [''verified'' \<mapsto> JBool True] one_badge)
       = Json 404 False (Some ''Badge not found'') None
   \<and> snd (put_badge postgres 1 ''99'' Map.empty one_badge)
       = Json 400 False (Some ''No fields provided to update'') None
   \<and> (\<exists>e. snd (put_badge postgres 1 ''99'' [''verified'' \<mapsto> JStr ''maybe''] one_badge) = Next e)"
  using not_found_responses [OF int8in_postgres_99 badge_99_absent, of 1 "Map.empty"]
        not_found_responses [OF int8in_postgres_99 badge_99_absent, of 1 "[''verified'' \<mapsto> JBool True]"]
        not_found_responses [OF int8in_postgres_99 badge_99_absent, of 1 "[''verified'' \<mapsto> JStr ''maybe'']"]
  by (simp add: allowed_def convertible_def column_type_def bind_def postgres_def)

text \<open>
  C5 as stated fails. No badge has id 99, yet \<^verbatim>\<open>PUT /badges/99\<close> with the body \<^verbatim>\<open>{}\<close>
  is answered 400, not 404: the body is checked before the table is asked. And
  \<^verbatim>\<open>GET /badges/abc\<close>, an id no row matches, ends in the database's own error.
\<close>

theorem not_found_counterexample:
  "badge_with_id one_badge 99 = None
   \<and> snd (put_badge postgres 1 ''99'' Map.empty one_badge)
       = Json 400 False (Some ''No fields provided to update'') None
   \<and> snd (get_badge postgres 1 ''abc'' one_badge) = Next (InvalidInput BigInt (JStr ''abc''))"
  by (simp add: badge_99_absent put_badge_def allowed_def get_badge_def pool_query_def exec_def
        bind_param_def param_def bind_def postgres_def decimal_def Let_def)


section \<open>Listing with a filter\<close>

lemma mset_order_by: "mset (order_by_created_at_desc rs) = mset rs"
  by (simp add: order_by_created_at_desc_def)

lemma sorted_order_by:
  "sorted_wrt (\<lambda>x y. created_at y \<le> created_at x) (order_by_created_at_desc rs)"
proof -
  have "sorted (map created_at (sort_key created_at rs))"
    by (rule sorted_sort_key)
  then have "sorted_wrt (\<lambda>x y. created_at x \<le> created_at y) (sort_key created_at rs)"
    by (simp add: sorted_map)
  then show ?thesis
    by (simp add: order_by_created_at_desc_def sorted_wrt_rev)
qed

lemma pool_query_SelectByStudent:
  assumes "v \<noteq> JNull" and "int8in cv v = Some n"
  shows "pool_query cv dt SelectByStudent [v] d =
     (d\<lparr>clock := clock d + dt, queries := queries d @ [(SelectByStudent, [v])]\<rparr>,
      Inr (order_by_created_at_desc (filter (\<lambda>r. student_id r = n) (table d))))"
  using assms
  by (simp add: pool_query_def exec_def Let_def bind_param_def param_def bind_def eq_bigint_SInt)

lemma pool_query_SelectByStudent_invalid:
  assumes "v \<noteq> JNull" and "int8in cv v = None"
  shows "pool_query cv dt SelectByStudent [v] d =
     (d\<lparr>clock := clock d + dt, queries := queries d @ [(SelectByStudent, [v])]\<rparr>,
      Inl (InvalidInput BigInt v))"
  using assms
  by (simp add: pool_query_def exec_def Let_def bind_param_def param_def bind_def)

text \<open>
  C6, amended. With a truthy \<^verbatim>\<open>student_id\<close> filter that the database converts to the
  \<^verbatim>\<open>BIGINT\<close> \<open>n\<close>, the list route answers 200 with exactly the rows whose
  \<^verbatim>\<open>student_id\<close> is \<open>n\<close>; with no filter it answers 200 with every row. In both cases
  the rows come newest first (a permutation of the selected rows, sorted by
  \<^verbatim>\<open>created_at\<close> descending), an empty selection gives the empty sequence, and the table
  is not changed. A filter that is present but falsy (the empty string) is treated as no
  filter: the route sends the unfiltered statement and answers with every row. A truthy
  filter that the database does not convert to a \<^verbatim>\<open>BIGINT\<close> yields the database's error,
  handed to \<^verbatim>\<open>next(err)\<close>.
\<close>

theorem get_badges_lists:
  "(q = Some v \<and> truthy q \<and> int8in cv v = Some n \<longrightarrow>
      get_badges cv dt q d =
        (d\<lparr>clock := clock d + dt, queries := queries d @ [(SelectByStudent, [v])]\<rparr>,
         Json 200 True None
           (Some (Rows (order_by_created_at_desc (filter (\<lambda>r. student_id r = n) (table d)))))))
   \<and> (q = None \<longrightarrow>
      get_badges cv dt q d =
        (d\<lparr>clock := clock d + dt, queries := queries d @ [(SelectAll, [])]\<rparr>,
         Json 200 True None (Some (Rows (order_by_created_at_desc (table d))))))
   \<and> (\<not> truthy q \<longrightarrow>
      get_badges cv dt q d =
        (d\<lparr>clock := clock d + dt, queries := queries d @ [(SelectAll, [])]\<rparr>,
         Json 200 True None (Some (Rows (order_by_created_at_desc (table d))))))
   \<and> (q = Some v \<and> truthy q \<and> int8in cv v = None \<longrightarrow>
      get_badges cv dt q d =
        (d\<lparr>clock := clock d + dt, queries := queries d @ [(SelectByStudent, [v])]\<rparr>,
         Next (InvalidInput BigInt v)))
   \<and> mset (order_by_created_at_desc rs) = mset rs
   \<and> sorted_wrt (\<lambda>x y. created_at y \<le> created_at x) (order_by_created_at_desc rs)
   \<and> order_by_created_at_desc [] = []"
proof (intro conjI impI)
  assume h: "q = Some v \<and> truthy q \<and> int8in cv v = Some n"
  then have "v \<noteq> JNull" and "truthy (Some v)" and "int8in cv v = Some n" and "q = Some v"
    by (auto dest: truthy_not_null)
  then show "get_badges cv dt q d =
        (d\<lparr>clock := clock d + dt, queries := queries d @ [(SelectByStudent, [v])]\<rparr>,
         Json 200 True None
           (Some (Rows (order_by_created_at_desc (filter (\<lambda>r. student_id r = n) (table d))))))"
    by (simp add: get_badges_def pool_query_SelectByStudent param_of_def)
next
  assume "q = None"
  then show "get_badges cv dt q d =
        (d\<lparr>clock := clock d + dt, queries := queries d @ [(SelectAll, [])]\<rparr>,
         Json 200 True None (Some (Rows (order_by_created_at_desc (table d)))))"
    by (simp add: get_badges_def pool_query_SelectAll)
next
  assume "\<not> truthy q"
  then show "get_badges cv dt q d =
        (d\<lparr>clock := clock d + dt, queries := queries d @ [(SelectAll, [])]\<rparr>,
         Json 200 True None (Some (Rows (order_by_created_at_desc (table d)))))"
    by (simp add: get_badges_def pool_query_SelectAll)
next
  assume h: "q = Some v \<and> truthy q \<and> int8in cv v = None"
  then have "v \<noteq> JNull" and "truthy (Some v)" and "int8in cv v = None" and "q = Some v"
    by (auto dest: truthy_not_null)
  then show "get_badges cv dt q d =
        (d\<lparr>clock := clock d + dt, queries := queries d @ [(SelectByStudent, [v])]\<rparr>,
         Next (InvalidInput BigInt v))"
    by (simp add: get_badges_def pool_query_SelectByStudent_invalid param_of_def)
next
  show "mset (order_by_created_at_desc rs) = mset rs" by (rule mset_order_by)
  show "sorted_wrt (\<lambda>x y. created_at y \<le> created_at x) (order_by_created_at_desc rs)"
    by (rule sorted_order_by)
  show "order_by_created_at_desc [] = []" by (simp add: order_by_created_at_desc_def)
qed

lemma int8in_postgres_12ab: "int8in postgres (JStr ''12ab'') = None"
  by (simp add: postgres_def decimal_def)

theorem get_badges_lists_witness:
  "snd (get_badges postgres 1 (Some (JStr ''1'')) one_badge) =
     Json 200 True None (Some (Rows
       [\<lparr>row_id = 1, student_id = 1, badge_name = ''Rust Basics'', badge_description = None,
         verified = False, created_at = 5, updated_at = 5\<rparr>]))
   \<and> snd (get_badges postgres 1 (Some (JStr ''99'')) one_badge) = Json 200 True None (Some (Rows []))
   \<and> snd (get_badges postgres 1 None one_badge) =
     Json 200 True None (Some (Rows
       [\<lparr>row_id = 1, student_id = 1, badge_name = ''Rust Basics'', badge_description = None,
         verified = False, created_at = 5, updated_at = 5\<rparr>]))
   \<and> snd (get_badges postgres 2 (Some (JStr [])) one_badge) =
     Json 200 True None (Some (Rows
       [\<lparr>row_id = 1, student_id = 1, badge_name = ''Rust Basics'', badge_description = None,
         verified = False, created_at = 5, updated_at = 5\<rparr>]))
   \<and> snd (get_badges postgres 2 (Some (JStr ''12ab'')) one_badge) =
     Next (InvalidInput BigInt (JStr ''12ab''))"
  using get_badges_lists [of "Some (JStr ''1'')" "JStr ''1''" postgres 1 1 one_badge]
        get_badges_lists [of "Some (JStr ''99'')" "JStr ''99''" postgres 99 1 one_badge]
        get_badges_lists [of None _ postgres _ 1 one_badge]
        get_badges_lists [of "Some (JStr [])" _ postgres _ 2 one_badge]
        get_badges_lists [of "Some (JStr ''12ab'')" "JStr ''12ab''" postgres _ 2 one_badge]
  by (simp add: int8in_postgres_1 int8in_postgres_99 int8in_postgres_12ab one_badge_eq
        order_by_created_at_desc_def)

text \<open>
  C6 as stated fails. The request \<^verbatim>\<open>GET /badges?student_id=\<close> carries a filter, the empty
  string, which no \<^verbatim>\<open>student_id\<close> matches, and the answer holds the badge of student 1;
  the request \<^verbatim>\<open>GET /badges?student_id=abc\<close> is answered with the database's error and
  not with a list.
\<close>

theorem get_badges_filter_counterexample:
  "snd (get_badges postgres 1 (Some (JStr [])) one_badge) =
     Json 200 True None (Some (Rows
       [\<lparr>row_id = 1, student_id = 1, badge_name = ''Rust Basics'', badge_description = None,
         verified = False, created_at = 5, updated_at = 5\<rparr>]))
   \<and> snd (get_badges postgres 1 (Some (JStr ''abc'')) one_badge) = Next (InvalidInput BigInt (JStr ''abc''))"
  by (simp add: get_badges_def pool_query_def exec_def bind_param_def param_def bind_def
        postgres_def decimal_def param_of_def one_badge_eq order_by_created_at_desc_def Let_def)


section \<open>Timestamps\<close>

lemma store_keeps:
  "store k sv r = Inr r' \<Longrightarrow>
     row_id r' = row_id r \<and> created_at r' = created_at r \<and> updated_at r' = updated_at r"
  by (auto simp: store_def split: if_splits sqlval.splits)

lemma assign_keeps:
  "assign as r = Inr r' \<Longrightarrow>
     row_id r' = row_id r \<and> created_at r' = created_at r \<and> updated_at r' = updated_at r"
proof (induction as arbitrary: r)
  case Nil
  then show ?case by simp
next
  case (Cons a as)
  obtain k sv where a: "a = (k, sv)" by (cases a)
  from Cons.prems obtain r1 where s: "store k sv r = Inr r1" and rest: "assign as r1 = Inr r'"
    by (auto simp: a split: sum.splits)
  show ?case using Cons.IH [OF rest] store_keeps [OF s] by simp
qed

lemma update_where_rows:
  "update_where p f tbl = Inr (tbl', out) \<Longrightarrow>
     list_all2 (\<lambda>r r'. r' = r \<or> f r = Inr r') tbl tbl'
     \<and> (\<forall>r' \<in> set out. r' \<in> set tbl' \<and> (\<exists>r \<in> set tbl. f r = Inr r'))"
proof (induction tbl arbitrary: tbl' out)
  case Nil
  then show ?case by simp
next
  case (Cons x xs)
  show ?case
  proof (cases "p x")
    case True
    with Cons.prems obtain x' t o' where
      "f x = Inr x'" "update_where p f xs = Inr (t, o')" "tbl' = x' # t" "out = x' # o'"
      by (auto split: sum.splits prod.splits)
    then show ?thesis using Cons.IH [of t o'] by auto
  next
    case False
    with Cons.prems obtain t where "update_where p f xs = Inr (t, out)" "tbl' = x # t"
      by (auto split: sum.splits prod.splits)
    then show ?thesis using Cons.IH [of t out] by auto
  qed
qed


lemma keeps_refl: "keeps tbl tbl"
  by (simp add: keeps_def)

lemma keeps_list_all2:
  assumes "list_all2 (\<lambda>r r'. row_id r' = row_id r \<and> created_at r' = created_at r) tbl tbl'"
  shows "keeps tbl tbl'"
proof -
  have "map_option created_at (find (\<lambda>r. row_id r = i) tbl')
          = map_option created_at (find (\<lambda>r. row_id r = i) tbl)" for i
    using assms by (induction rule: list_all2_induct) auto
  then show ?thesis by (simp add: keeps_def)
qed

lemma find_filter_other:
  "find (\<lambda>r. row_id r = i) (filter (\<lambda>r. \<not> q (row_id r)) xs)
     = (if q i then None else find (\<lambda>r. row_id r = i) xs)"
  by (induction xs) auto

lemma keeps_filter: "keeps tbl (filter (\<lambda>r. \<not> q (row_id r)) tbl)"
  by (simp add: keeps_def find_filter_other)

lemma keeps_update_where:
  assumes "update_where p f tbl = Inr (tbl', out)"
      and "\<And>r r'. f r = Inr r' \<Longrightarrow> row_id r' = row_id r \<and> created_at r' = created_at r"
  shows "keeps tbl tbl'"
proof -
  have "list_all2 (\<lambda>r r'. r' = r \<or> f r = Inr r') tbl tbl'"
    using update_where_rows [OF assms(1)] by simp
  then have "list_all2 (\<lambda>r r'. row_id r' = row_id r \<and> created_at r' = created_at r) tbl tbl'"
    by (rule list_all2_mono) (auto dest: assms(2))
  then show ?thesis by (rule keeps_list_all2)
qed

lemma trigger_assign_keeps:
  "(case assign as r of Inl e \<Rightarrow> Inl e | Inr r' \<Rightarrow> Inr (update_updated_at_column now r')) = Inr r''
     \<Longrightarrow> row_id r'' = row_id r \<and> created_at r'' = created_at r \<and> updated_at r'' = now"
  by (auto simp: update_updated_at_column_def split: sum.splits dest: assign_keeps)

lemma trigger_store_keeps:
  "(case store k sv r of Inl e \<Rightarrow> Inl e | Inr r' \<Rightarrow> Inr (update_updated_at_column now r')) = Inr r''
     \<Longrightarrow> row_id r'' = row_id r \<and> created_at r'' = created_at r \<and> updated_at r'' = now"
  by (auto simp: update_updated_at_column_def split: sum.splits dest: store_keeps)

lemma exec_keeps:
  assumes "exec cv now st vs tbl nid = Inr (tbl', nid', out)" and "st \<noteq> InsertBadge"
  shows "keeps tbl tbl'"
proof (cases st)
  case (UpdateSet flds idx)
  with assms(1) obtain as sv where
    "update_where (\<lambda>r. eq_bigint sv (row_id r))
       (\<lambda>r. case assign as r of Inl e \<Rightarrow> Inl e | Inr r' \<Rightarrow> Inr (update_updated_at_column now r')) tbl
     = Inr (tbl', out)"
    by (auto simp: exec_def split: sum.splits prod.splits)
  then show ?thesis by (rule keeps_update_where) (auto dest: trigger_assign_keeps)
next
  case UpdateVerified
  with assms(1) obtain c sv where
    "update_where (\<lambda>r. eq_bigint sv (row_id r))
       (\<lambda>r. case store ''verified'' c r of Inl e \<Rightarrow> Inl e | Inr r' \<Rightarrow> Inr (update_updated_at_column now r')) tbl
     = Inr (tbl', out)"
    by (auto simp: exec_def split: sum.splits prod.splits)
  then show ?thesis by (rule keeps_update_where) (auto dest: trigger_store_keeps)
next
  case ToggleVerified
  with assms(1) obtain sv where
    "update_where (\<lambda>r. eq_bigint sv (row_id r))
       (\<lambda>r. Inr (update_updated_at_column now (r\<lparr>verified := \<not> verified r\<rparr>))) tbl
     = Inr (tbl', out)"
    by (auto simp: exec_def split: sum.splits prod.splits)
  then show ?thesis by (rule keeps_update_where) (auto simp: update_updated_at_column_def)
next
  case DeleteById
  with assms(1) obtain sv where "tbl' = filter (\<lambda>r. \<not> eq_bigint sv (row_id r)) tbl"
    by (auto simp: exec_def split: sum.splits)
  then show ?thesis by (simp add: keeps_filter)
qed (use assms in \<open>auto simp: exec_def keeps_refl split: sum.splits\<close>)

lemma pool_query_keeps:
  assumes "st \<noteq> InsertBadge"
  shows "keeps (table d) (table (fst (pool_query cv dt st vs d)))"
proof (cases "exec cv (clock d + dt) st vs (table d) (next_id d)")
  case (Inl e)
  then show ?thesis by (simp add: pool_query_def Let_def keeps_refl)
next
  case (Inr res)
  obtain tbl' nid' out where "res = (tbl', nid', out)" by (cases res) auto
  then show ?thesis using Inr exec_keeps [OF _ assms] by (simp add: pool_query_def Let_def)
qed


lemma fst_route:
  "fst (case x of (d', Inl e) \<Rightarrow> (d', f e) | (d', Inr rs) \<Rightarrow> (d', g rs)) = fst x"
  "fst (case x of (d', Inl e) \<Rightarrow> (d', f e)
               | (d', Inr rs) \<Rightarrow> if c rs then (d', h rs) else (d', g rs)) = fst x"
  by (auto split: prod.splits sum.splits)

lemma put_badge_db:
  assumes "collect b allowed ([], [], 1) = (flds, vals, idx)"
  shows "fst (put_badge cv dt ident b d) =
           (if flds = [] then d
            else fst (pool_query cv dt (UpdateSet flds idx) (vals @ [JStr ident]) d))"
  by (simp add: put_badge_collect [OF assms] fst_route)

lemma patch_verify_db:
  "fst (patch_verify cv dt ident b d) =
     (if is_boolean (b ''verified'')
      then fst (pool_query cv dt UpdateVerified [param_of (b ''verified''), JStr ident] d)
      else fst (pool_query cv dt ToggleVerified [JStr ident] d))"
  by (simp add: patch_verify_def fst_route)

lemma delete_badge_db:
  "fst (delete_badge cv dt ident d) = fst (pool_query cv dt DeleteById [JStr ident] d)"
  by (simp add: delete_badge_def fst_route)

lemma created_of_keeps: "keeps (table d) (table d') \<Longrightarrow> created_of d' i = Some t \<Longrightarrow> created_of d i = Some t"
  by (simp add: keeps_def created_of_def badge_with_id_def)

lemma put_badge_keeps: "keeps (table d) (table (fst (put_badge cv dt ident b d)))"
proof -
  obtain flds vals idx where c: "collect b allowed ([], [], 1) = (flds, vals, idx)"
    by (cases "collect b allowed ([], [], 1)") auto
  show ?thesis by (simp add: put_badge_db [OF c] keeps_refl pool_query_keeps)
qed

lemma patch_verify_keeps: "keeps (table d) (table (fst (patch_verify cv dt ident b d)))"
  by (simp add: patch_verify_db pool_query_keeps)

lemma delete_badge_keeps: "keeps (table d) (table (fst (delete_badge cv dt ident d)))"
  by (simp add: delete_badge_db pool_query_keeps)

text \<open>The rows an update returns carry the time of the statement.\<close>

lemma exec_update_out:
  assumes "exec cv now st vs tbl nid = Inr (tbl', nid', out)"
      and "st = UpdateVerified \<or> st = ToggleVerified \<or> (\<exists>flds idx. st = UpdateSet flds idx)"
      and "r \<in> set out"
  shows "updated_at r = now \<and> r \<in> set tbl'"
proof -
  from assms(1,2) obtain p f where
    u: "update_where p f tbl = Inr (tbl', out)" and
    f: "\<And>x x'. f x = Inr x' \<Longrightarrow> updated_at x' = now"
  proof (elim disjE exE)
    assume st: "st = UpdateVerified"
    with assms(1) obtain c sv where
      "update_where (\<lambda>r. eq_bigint sv (row_id r))
         (\<lambda>r. case store ''verified'' c r of Inl e \<Rightarrow> Inl e | Inr r' \<Rightarrow> Inr (update_updated_at_column now r')) tbl
       = Inr (tbl', out)"
      by (auto simp: exec_def split: sum.splits prod.splits)
    then show ?thesis by (rule that) (auto dest: trigger_store_keeps)
  next
    assume st: "st = ToggleVerified"
    with assms(1) obtain sv where
      "update_where (\<lambda>r. eq_bigint sv (row_id r))
         (\<lambda>r. Inr (update_updated_at_column now (r\<lparr>verified := \<not> verified r\<rparr>))) tbl
       = Inr (tbl', out)"
      by (auto simp: exec_def split: sum.splits prod.splits)
    then show ?thesis by (rule that) (auto simp: update_updated_at_column_def)
  next
    fix flds idx
    assume st: "st = UpdateSet flds idx"
    with assms(1) obtain as sv where
      "update_where (\<lambda>r. eq_bigint sv (row_id r))
         (\<lambda>r. case assign as r of Inl e \<Rightarrow> Inl e | Inr r' \<Rightarrow> Inr (update_updated_at_column now r')) tbl
       = Inr (tbl', out)"
      by (auto simp: exec_def split: sum.splits prod.splits)
    then show ?thesis by (rule that) (auto dest: trigger_assign_keeps)
  qed
  show ?thesis
    using update_where_rows [OF u] assms(3) f by blast
qed

lemma pool_query_update_out:
  assumes "pool_query cv dt st vs d = (d', Inr out)"
      and "st = UpdateVerified \<or> st = ToggleVerified \<or> (\<exists>flds idx. st = UpdateSet flds idx)"
      and "r \<in> set out"
  shows "updated_at r = clock d + dt \<and> r \<in> set (table d')"
proof (cases "exec cv (clock d + dt) st vs (table d) (next_id d)")
  case (Inl e)
  then show ?thesis using assms(1) by (simp add: pool_query_def Let_def)
next
  case (Inr res)
  obtain tbl' nid' out' where res: "res = (tbl', nid', out')" by (cases res) auto
  have "out' = out" "table d' = tbl'"
    using assms(1) Inr res by (auto simp: pool_query_def Let_def)
  then show ?thesis
    using exec_update_out [OF _ assms(2), of cv "clock d + dt" vs "table d" "next_id d" tbl' nid' out r]
      Inr res assms(3) by simp
qed

lemma first_row_in: "first_row rs = Some (Row r) \<Longrightarrow> r \<in> set rs"
  by (auto simp: first_row_def split: list.splits)

lemma first_row_nonempty: "rs \<noteq> [] \<Longrightarrow> \<exists>r. first_row rs = Some (Row r) \<and> r \<in> set rs"
  by (cases rs) (auto simp: first_row_def)

text \<open>A 200 answer of the update or of the verify route carries a row the statement wrote.\<close>

lemma put_badge_refreshes:
  assumes "snd (put_badge cv dt ident b d) = Json 200 ok msg x"
  shows "\<exists>r. x = Some (Row r) \<and> updated_at r = clock d + dt
             \<and> r \<in> set (table (fst (put_badge cv dt ident b d)))"
proof -
  obtain flds vals idx where c: "collect b allowed ([], [], 1) = (flds, vals, idx)"
    by (cases "collect b allowed ([], [], 1)") auto
  obtain d' res where q: "pool_query cv dt (UpdateSet flds idx) (vals @ [JStr ident]) d = (d', res)"
    by (cases "pool_query cv dt (UpdateSet flds idx) (vals @ [JStr ident]) d") auto
  from assms obtain out where res: "res = Inr out" and ne: "out \<noteq> []" and x: "x = first_row out"
      and d': "fst (put_badge cv dt ident b d) = d'"
    by (auto simp: put_badge_collect [OF c] q split: if_splits sum.splits)
  from first_row_nonempty [OF ne] obtain r where r: "first_row out = Some (Row r)" "r \<in> set out"
    by blast
  show ?thesis
    using pool_query_update_out [OF q [unfolded res] _ r(2)] d' x r(1) by auto
qed

lemma patch_verify_refreshes:
  assumes "snd (patch_verify cv dt ident b d) = Json 200 ok msg x"
  shows "\<exists>r. x = Some (Row r) \<and> updated_at r = clock d + dt
             \<and> r \<in> set (table (fst (patch_verify cv dt ident b d)))"
proof (cases "is_boolean (b ''verified'')")
  case True
  obtain d' res where q: "pool_query cv dt UpdateVerified [param_of (b ''verified''), JStr ident] d = (d', res)"
    by (cases "pool_query cv dt UpdateVerified [param_of (b ''verified''), JStr ident] d") auto
  from assms True obtain out where res: "res = Inr out" and ne: "out \<noteq> []" and x: "x = first_row out"
      and d': "fst (patch_verify cv dt ident b d) = d'"
    by (auto simp: patch_verify_def q split: if_splits sum.splits)
  from first_row_nonempty [OF ne] obtain r where r: "first_row out = Some (Row r)" "r \<in> set out"
    by blast
  show ?thesis
    using pool_query_update_out [OF q [unfolded res] _ r(2)] d' x r(1) by auto
next
  case False
  obtain d' res where q: "pool_query cv dt ToggleVerified [JStr ident] d = (d', res)"
    by (cases "pool_query cv dt ToggleVerified [JStr ident] d") auto
  from assms False obtain out where res: "res = Inr out" and ne: "out \<noteq> []" and x: "x = first_row out"
      and d': "fst (patch_verify cv dt ident b d) = d'"
    by (auto simp: patch_verify_def q split: if_splits sum.splits)
  from first_row_nonempty [OF ne] obtain r where r: "first_row out = Some (Row r)" "r \<in> set out"
    by blast
  show ?thesis
    using pool_query_update_out [OF q [unfolded res] _ r(2)] d' x r(1) by auto
qed

text \<open>A 201 answer of the create route carries the row the statement inserted.\<close>

lemma post_badges_201:
  assumes "snd (post_badges cv dt b d) = Json 201 ok msg x"
  shows "\<exists>r. x = Some (Row r) \<and> created_at r = clock d + dt \<and> updated_at r = clock d + dt
             \<and> r \<in> set (table (fst (post_badges cv dt b d)))"
proof -
  from assms obtain as r where
    a: "assign as \<lparr>row_id = next_id d, student_id = 0, badge_name = [], badge_description = None,
                   verified = False, created_at = clock d + dt, updated_at = clock d + dt\<rparr> = Inr r"
    and x: "x = Some (Row r)"
    and t: "table (fst (post_badges cv dt b d)) = table d @ [r]"
    by (auto simp: post_badges_def pool_query_def exec_def Let_def first_row_def
             split: if_splits sum.splits)
  show ?thesis using assign_keeps [OF a] x t by simp
qed

text \<open>An accepted update of a stored badge, and any verify of one, stores and returns the refreshed row.\<close>

lemma merged_keeps:
  "row_id (merged cv b now r) = row_id r" "created_at (merged cv b now r) = created_at r"
  "updated_at (merged cv b now r) = now"
  by (simp_all add: merged_def)

lemma put_badge_refreshes_row:
  assumes "int8in cv (JStr ident) = Some n" and "badge_with_id d n = Some old"
      and "(\<forall>k \<in> set allowed. storable cv k (b k)) \<and> (\<exists>k \<in> set allowed. b k \<noteq> None)"
  shows "snd (put_badge cv dt ident b d) =
           Json 200 True None (Some (Row (merged cv b (clock d + dt) old)))"
    and "badge_with_id (fst (put_badge cv dt ident b d)) n = Some (merged cv b (clock d + dt) old)"
proof -
  note acc = put_badge_accepted [OF assms(1) assms(3), of dt d]
  show "snd (put_badge cv dt ident b d) =
           Json 200 True None (Some (Row (merged cv b (clock d + dt) old)))"
    using acc assms(2) by simp
  show "badge_with_id (fst (put_badge cv dt ident b d)) n = Some (merged cv b (clock d + dt) old)"
    using acc assms(2)
      find_map_same_id [of "merged cv b (clock d + dt)" n "table d"]
    by (simp add: badge_with_id_def merged_keeps)
qed

lemma patch_verify_refreshes_row:
  assumes "int8in cv (JStr ident) = Some n" and "badge_with_id d n = Some old"
  shows "\<exists>r. snd (patch_verify cv dt ident b d) = Json 200 True None (Some (Row r))
            \<and> badge_with_id (fst (patch_verify cv dt ident b d)) n = Some r
            \<and> updated_at r = clock d + dt \<and> created_at r = created_at old"
proof (cases "is_boolean (b ''verified'')")
  case True
  then obtain c where c: "b ''verified'' = Some (JBool c)"
    by (cases "b ''verified''" rule: is_boolean.cases) auto
  let ?g = "\<lambda>x. x\<lparr>verified := c, updated_at := clock d + dt\<rparr>"
  have "badge_with_id (fst (patch_verify cv dt ident b d)) n = Some (?g old)"
    using assms(2) find_map_same_id [of ?g n "table d"]
    by (simp add: patch_verify_set [where b = b, OF assms(1) c] badge_with_id_def)
  then show ?thesis
    using assms(2) by (simp add: patch_verify_set [where b = b, OF assms(1) c])
next
  case False
  let ?g = "\<lambda>x. x\<lparr>verified := \<not> verified x, updated_at := clock d + dt\<rparr>"
  have "badge_with_id (fst (patch_verify cv dt ident b d)) n = Some (?g old)"
    using assms(2) find_map_same_id [of ?g n "table d"]
    by (simp add: patch_verify_toggle [where b = b, OF assms(1) False] badge_with_id_def)
  then show ?thesis
    using assms(2) by (simp add: patch_verify_toggle [where b = b, OF assms(1) False])
qed

lemma list_all2_set2: "list_all2 P xs ys \<Longrightarrow> y \<in> set ys \<Longrightarrow> \<exists>x \<in> set xs. P x y"
  by (induction rule: list_all2_induct) auto

lemma exec_rows:
  assumes "exec cv now st vs tbl nid = Inr (tbl', nid', out)" and "r' \<in> set tbl'"
  shows "r' \<in> set tbl
       \<or> (created_at r' = now \<and> updated_at r' = now)
       \<or> (\<exists>r \<in> set tbl. created_at r' = created_at r \<and> updated_at r' = now)"
proof (cases st)
  case InsertBadge
  with assms(1) obtain as r where
    a: "assign as \<lparr>row_id = nid, student_id = 0, badge_name = [], badge_description = None,
                   verified = False, created_at = now, updated_at = now\<rparr> = Inr r"
    and t: "tbl' = tbl @ [r]"
    by (auto simp: exec_def split: sum.splits)
  show ?thesis using assign_keeps [OF a] assms(2) t by auto
next
  case (UpdateSet flds idx)
  with assms(1) obtain as sv where
    u: "update_where (\<lambda>r. eq_bigint sv (row_id r))
       (\<lambda>r. case assign as r of Inl e \<Rightarrow> Inl e | Inr r' \<Rightarrow> Inr (update_updated_at_column now r')) tbl
     = Inr (tbl', out)"
    by (auto simp: exec_def split: sum.splits prod.splits)
  show ?thesis
    using list_all2_set2 [OF conjunct1 [OF update_where_rows [OF u]] assms(2)]
    by (auto dest: trigger_assign_keeps)
next
  case UpdateVerified
  with assms(1) obtain c sv where
    u: "update_where (\<lambda>r. eq_bigint sv (row_id r))
       (\<lambda>r. case store ''verified'' c r of Inl e \<Rightarrow> Inl e | Inr r' \<Rightarrow> Inr (update_updated_at_column now r')) tbl
     = Inr (tbl', out)"
    by (auto simp: exec_def split: sum.splits prod.splits)
  show ?thesis
    using list_all2_set2 [OF conjunct1 [OF update_where_rows [OF u]] assms(2)]
    by (auto dest: trigger_store_keeps)
next
  case ToggleVerified
  with assms(1) obtain sv where
    u: "update_where (\<lambda>r. eq_bigint sv (row_id r))
       (\<lambda>r. Inr (update_updated_at_column now (r\<lparr>verified := \<not> verified r\<rparr>))) tbl
     = Inr (tbl', out)"
    by (auto simp: exec_def split: sum.splits prod.splits)
  show ?thesis
    using list_all2_set2 [OF conjunct1 [OF update_where_rows [OF u]] assms(2)]
    by (auto simp: update_updated_at_column_def)
qed (use assms in \<open>auto simp: exec_def split: sum.splits\<close>)

lemma pool_query_stamped:
  assumes "stamped d"
  shows "stamped (fst (pool_query cv dt st vs d))"
proof (cases "exec cv (clock d + dt) st vs (table d) (next_id d)")
  case (Inl e)
  then show ?thesis using assms by (fastforce simp: pool_query_def Let_def stamped_def)
next
  case (Inr res)
  obtain tbl' nid' out where res: "res = (tbl', nid', out)" by (cases res) auto
  have "created_at r' \<le> updated_at r' \<and> updated_at r' \<le> clock d + dt" if "r' \<in> set tbl'" for r'
    using exec_rows [OF Inr [unfolded res] that] assms by (fastforce simp: stamped_def)
  then show ?thesis using Inr res by (simp add: pool_query_def Let_def stamped_def)
qed

lemma handle_stamped:
  assumes "stamped d"
  shows "stamped (fst (handle cv dt rq d))"
proof (cases rq)
  case CreateTable
  then show ?thesis
    using assms by (simp add: create_skill_badges_table_def fst_route pool_query_stamped)
next
  case (PostBadges b)
  then show ?thesis using assms by (simp add: post_badges_def fst_route pool_query_stamped)
next
  case (GetBadges q)
  then show ?thesis using assms by (simp add: get_badges_def fst_route pool_query_stamped)
next
  case (GetBadge ident)
  then show ?thesis using assms by (simp add: get_badge_def fst_route pool_query_stamped)
next
  case (GetStudentBadges sid)
  then show ?thesis using assms by (simp add: get_student_badges_def fst_route pool_query_stamped)
next
  case (PutBadge ident b)
  obtain flds vals idx where c: "collect b allowed ([], [], 1) = (flds, vals, idx)"
    by (cases "collect b allowed ([], [], 1)") auto
  show ?thesis using assms PutBadge by (simp add: put_badge_db [OF c] pool_query_stamped)
next
  case (PatchVerify ident b)
  then show ?thesis using assms by (simp add: patch_verify_db pool_query_stamped)
next
  case (DeleteBadge ident)
  then show ?thesis using assms by (simp add: delete_badge_db pool_query_stamped)
qed

lemma run_stamped: "stamped d \<Longrightarrow> stamped (run cv history d)"
proof (induction history arbitrary: d)
  case Nil
  then show ?case by simp
next
  case (Cons step history)
  obtain dt rq where step: "step = (dt, rq)" by (cases step)
  show ?case using Cons.IH [OF handle_stamped [OF Cons.prems]] by (simp add: step)
qed

lemma stamped_empty_db: "stamped empty_db"
  by (simp add: stamped_def empty_db_def)

text \<open>
  C4. Time is the database's clock; each statement runs \<open>dt\<close> ticks after the one before,
  and \<open>dt\<close> is a natural number: the clock does not run backwards.

  Insert: an accepted create request inserts and returns a row whose \<^verbatim>\<open>created_at\<close> and
  \<^verbatim>\<open>updated_at\<close> are the time of the statement, and every 201 answer carries such a row.

  \<^verbatim>\<open>created_at\<close> is never changed: a badge that exists after a partial update, a verify
  or a delete had the same \<^verbatim>\<open>created_at\<close> before it.

  \<^verbatim>\<open>updated_at\<close> is refreshed by the database: an accepted partial update of a stored
  badge, and every verify of a stored badge, answers 200 with a row that is the stored row
  of that id, whose \<^verbatim>\<open>updated_at\<close> is the time of the statement and whose
  \<^verbatim>\<open>created_at\<close> is the old one; and every 200 answer of the two routes, whatever the
  body holds, carries a row of the new table whose \<^verbatim>\<open>updated_at\<close> is the time of the
  statement.

  After any history of requests from the empty database every row has
  \<^verbatim>\<open>created_at\<close> \<open>\<le>\<close> \<^verbatim>\<open>updated_at\<close>.
\<close>

theorem timestamps:
  "(b0 ''student_id'' = Some sv \<and> truthy (Some sv) \<and> int8in cv sv = Some m
      \<and> b0 ''badge_name'' = Some nv \<and> truthy (Some nv) \<and> varcharin cv nv = Some s
      \<and> bind cv Text (or_null (b0 ''badge_description'')) = Inr dv \<longrightarrow>
      (\<exists>r. snd (post_badges cv dt b0 d) = Json 201 True None (Some (Row r))
           \<and> table (fst (post_badges cv dt b0 d)) = table d @ [r]
           \<and> created_at r = clock d + dt \<and> updated_at r = clock d + dt))
   \<and> (snd (post_badges cv dt b0 d) = Json 201 ok0 msg0 x0 \<longrightarrow>
        (\<exists>r. x0 = Some (Row r) \<and> created_at r = clock d + dt \<and> updated_at r = clock d + dt
             \<and> r \<in> set (table (fst (post_badges cv dt b0 d)))))
   \<and> (created_of (fst (put_badge cv dt ident b d)) i = Some t \<longrightarrow> created_of d i = Some t)
   \<and> (created_of (fst (patch_verify cv dt ident b d)) i = Some t \<longrightarrow> created_of d i = Some t)
   \<and> (created_of (fst (delete_badge cv dt ident' d)) i = Some t \<longrightarrow> created_of d i = Some t)
   \<and> (int8in cv (JStr ident) = Some n \<and> badge_with_id d n = Some old
        \<and> (\<forall>k \<in> set allowed. storable cv k (b k)) \<and> (\<exists>k \<in> set allowed. b k \<noteq> None) \<longrightarrow>
        (\<exists>r. snd (put_badge cv dt ident b d) = Json 200 True None (Some (Row r))
             \<and> badge_with_id (fst (put_badge cv dt ident b d)) n = Some r
             \<and> updated_at r = clock d + dt \<and> created_at r = created_at old))
   \<and> (int8in cv (JStr ident) = Some n \<and> badge_with_id d n = Some old \<longrightarrow>
        (\<exists>r. snd (patch_verify cv dt ident b d) = Json 200 True None (Some (Row r))
             \<and> badge_with_id (fst (patch_verify cv dt ident b d)) n = Some r
             \<and> updated_at r = clock d + dt \<and> created_at r = created_at old))
   \<and> (snd (put_badge cv dt ident b d) = Json 200 ok1 msg1 x1 \<longrightarrow>
        (\<exists>r. x1 = Some (Row r) \<and> updated_at r = clock d + dt
             \<and> r \<in> set (table (fst (put_badge cv dt ident b d)))))
   \<and> (snd (patch_verify cv dt ident b d) = Json 200 ok2 msg2 x2 \<longrightarrow>
        (\<exists>r. x2 = Some (Row r) \<and> updated_at r = clock d + dt
             \<and> r \<in> set (table (fst (patch_verify cv dt ident b d)))))
   \<and> (\<forall>x \<in> set (table (run cv history empty_db)). created_at x \<le> updated_at x)"
proof -
  have inserted: "\<exists>r. snd (post_badges cv dt b0 d) = Json 201 True None (Some (Row r))
           \<and> table (fst (post_badges cv dt b0 d)) = table d @ [r]
           \<and> created_at r = clock d + dt \<and> updated_at r = clock d + dt"
    if "b0 ''student_id'' = Some sv \<and> truthy (Some sv) \<and> int8in cv sv = Some m
      \<and> b0 ''badge_name'' = Some nv \<and> truthy (Some nv) \<and> varcharin cv nv = Some s
      \<and> bind cv Text (or_null (b0 ''badge_description'')) = Inr dv"
    using that post_badges_accepted [of b0 sv cv m nv s dv dt d] by (simp add: Let_def)
  have kept: "created_of d i = Some t"
    if "created_of (fst (put_badge cv dt ident b d)) i = Some t
        \<or> created_of (fst (patch_verify cv dt ident b d)) i = Some t
        \<or> created_of (fst (delete_badge cv dt ident' d)) i = Some t"
    using that
    by (auto dest: created_of_keeps [OF put_badge_keeps] created_of_keeps [OF patch_verify_keeps]
                   created_of_keeps [OF delete_badge_keeps])
  have updated: "\<exists>r. snd (put_badge cv dt ident b d) = Json 200 True None (Some (Row r))
             \<and> badge_with_id (fst (put_badge cv dt ident b d)) n = Some r
             \<and> updated_at r = clock d + dt \<and> created_at r = created_at old"
    if "int8in cv (JStr ident) = Some n \<and> badge_with_id d n = Some old
        \<and> (\<forall>k \<in> set allowed. storable cv k (b k)) \<and> (\<exists>k \<in> set allowed. b k \<noteq> None)"
    using that put_badge_refreshes_row [of cv ident n d old b dt] by (simp add: merged_keeps)
  have verified: "\<exists>r. snd (patch_verify cv dt ident b d) = Json 200 True None (Some (Row r))
             \<and> badge_with_id (fst (patch_verify cv dt ident b d)) n = Some r
             \<and> updated_at r = clock d + dt \<and> created_at r = created_at old"
    if "int8in cv (JStr ident) = Some n \<and> badge_with_id d n = Some old"
    using that patch_verify_refreshes_row [of cv ident n d old dt b] by simp
  have always: "\<forall>x \<in> set (table (run cv history empty_db)). created_at x \<le> updated_at x"
    using run_stamped [OF stamped_empty_db, of cv history] by (simp add: stamped_def)
  show ?thesis
  proof (intro conjI impI)
    show "\<forall>x \<in> set (table (run cv history empty_db)). created_at x \<le> updated_at x"
      by (rule always)
  qed (erule inserted post_badges_201 updated verified put_badge_refreshes patch_verify_refreshes
         | rule kept, blast)+
qed

lemma put_badge_client_timestamps:
  "put_badge postgres 3 ''1''
     [''badge_name'' \<mapsto> JStr ''Advanced Rust'', ''created_at'' \<mapsto> JNum 0, ''updated_at'' \<mapsto> JNum 0]
     one_badge =
   (\<lparr>table = [\<lparr>row_id = 1, student_id = 1, badge_name = ''Advanced Rust'', badge_description = None,
                verified = False, created_at = 5, updated_at = 8\<rparr>],
      next_id = 2, clock = 8,
      queries = [(InsertBadge, [JNum 1, JStr ''Rust Basics'', JNull, JBool False]),
                 (UpdateSet [(''badge_name'', 1)] 2, [JStr ''Advanced Rust'', JStr ''1''])]\<rparr>,
    Json 200 True None (Some (Row
      \<lparr>row_id = 1, student_id = 1, badge_name = ''Advanced Rust'', badge_description = None,
       verified = False, created_at = 5, updated_at = 8\<rparr>)))"
  by (simp add: put_badge_def allowed_def pool_query_def exec_def bind_param_def param_def bind_def
        column_type_def store_def eq_bigint_def one_badge_eq int8in_postgres_1 Let_def
        update_updated_at_column_def first_row_def postgres_def decimal_def in_int8_def)

lemma post_badges_second:
  "post_badges postgres 3 [''student_id'' \<mapsto> JStr ''2'', ''badge_name'' \<mapsto> JStr ''Go''] one_badge =
   (\<lparr>table = [\<lparr>row_id = 1, student_id = 1, badge_name = ''Rust Basics'', badge_description = None,
                verified = False, created_at = 5, updated_at = 5\<rparr>,
              \<lparr>row_id = 2, student_id = 2, badge_name = ''Go'', badge_description = None,
                verified = False, created_at = 8, updated_at = 8\<rparr>],
      next_id = 3, clock = 8,
      queries = [(InsertBadge, [JNum 1, JStr ''Rust Basics'', JNull, JBool False]),
                 (InsertBadge, [JStr ''2'', JStr ''Go'', JNull, JBool False])]\<rparr>,
    Json 201 True None (Some (Row
      \<lparr>row_id = 2, student_id = 2, badge_name = ''Go'', badge_description = None,
       verified = False, created_at = 8, updated_at = 8\<rparr>)))"
  by (simp add: post_badges_def pool_query_def exec_def bind_param_def param_def bind_def
        column_type_def store_def one_badge_eq Let_def param_of_def or_null_def not_not_def
        first_row_def postgres_def decimal_def in_int8_def)

lemma patch_verify_toggle_one:
  "patch_verify postgres 3 ''1''
     [''badge_name'' \<mapsto> JStr ''Advanced Rust'', ''created_at'' \<mapsto> JNum 0, ''updated_at'' \<mapsto> JNum 0]
     one_badge =
   (\<lparr>table = [\<lparr>row_id = 1, student_id = 1, badge_name = ''Rust Basics'', badge_description = None,
                verified = True, created_at = 5, updated_at = 8\<rparr>],
      next_id = 2, clock = 8,
      queries = [(InsertBadge, [JNum 1, JStr ''Rust Basics'', JNull, JBool False]),
                 (ToggleVerified, [JStr ''1''])]\<rparr>,
    Json 200 True None (Some (Row
      \<lparr>row_id = 1, student_id = 1, badge_name = ''Rust Basics'', badge_description = None,
       verified = True, created_at = 5, updated_at = 8\<rparr>)))"
  by (simp add: patch_verify_def pool_query_def exec_def bind_param_def param_def bind_def
        eq_bigint_def one_badge_eq Let_def update_updated_at_column_def first_row_def
        postgres_def decimal_def in_int8_def)

lemma delete_badge_absent:
  "delete_badge postgres 3 ''99'' one_badge =
   (\<lparr>table = [\<lparr>row_id = 1, student_id = 1, badge_name = ''Rust Basics'', badge_description = None,
                verified = False, created_at = 5, updated_at = 5\<rparr>],
      next_id = 2, clock = 8,
      queries = [(InsertBadge, [JNum 1, JStr ''Rust Basics'', JNull, JBool False]),
                 (DeleteById, [JStr ''99''])]\<rparr>,
    Json 404 False (Some ''Badge not found'') None)"
  by (simp add: delete_badge_def pool_query_def exec_def bind_param_def param_def bind_def
        eq_bigint_def one_badge_eq Let_def postgres_def decimal_def in_int8_def)

lemma run_two_requests:
  "run postgres
     [(5, PostBadges [''student_id'' \<mapsto> JNum 1, ''badge_name'' \<mapsto> JStr ''Rust Basics'']),
      (3, PutBadge ''1'' [''badge_name'' \<mapsto> JStr ''Advanced Rust'', ''created_at'' \<mapsto> JNum 0,
                          ''updated_at'' \<mapsto> JNum 0])] empty_db
   = fst (put_badge postgres 3 ''1''
            [''badge_name'' \<mapsto> JStr ''Advanced Rust'', ''created_at'' \<mapsto> JNum 0,
             ''updated_at'' \<mapsto> JNum 0] one_badge)"
  by (simp add: one_badge_def)

theorem timestamps_witness:
  "(\<exists>r. snd (post_badges postgres 3 [''student_id'' \<mapsto> JStr ''2'', ''badge_name'' \<mapsto> JStr ''Go'']
               one_badge) = Json 201 True None (Some (Row r))
        \<and> table (fst (post_badges postgres 3
                     [''student_id'' \<mapsto> JStr ''2'', ''badge_name'' \<mapsto> JStr ''Go''] one_badge))
            = table one_badge @ [r]
        \<and> created_at r = 8 \<and> updated_at r = 8)
   \<and> (\<exists>r. snd (put_badge postgres 3 ''1''
               [''badge_name'' \<mapsto> JStr ''Advanced Rust'', ''created_at'' \<mapsto> JNum 0,
                ''updated_at'' \<mapsto> JNum 0] one_badge) = Json 200 True None (Some (Row r))
        \<and> badge_with_id (fst (put_badge postgres 3 ''1''
               [''badge_name'' \<mapsto> JStr ''Advanced Rust'', ''created_at'' \<mapsto> JNum 0,
                ''updated_at'' \<mapsto> JNum 0] one_badge)) 1 = Some r
        \<and> updated_at r = 8 \<and> created_at r = 5)
   \<and> (\<exists>r. snd (patch_verify postgres 3 ''1''
               [''badge_name'' \<mapsto> JStr ''Advanced Rust'', ''created_at'' \<mapsto> JNum 0,
                ''updated_at'' \<mapsto> JNum 0] one_badge) = Json 200 True None (Some (Row r))
        \<and> badge_with_id (fst (patch_verify postgres 3 ''1''
               [''badge_name'' \<mapsto> JStr ''Advanced Rust'', ''created_at'' \<mapsto> JNum 0,
                ''updated_at'' \<mapsto> JNum 0] one_badge)) 1 = Some r
        \<and> updated_at r = 8 \<and> created_at r = 5)
   \<and> created_of (fst (delete_badge postgres 3 ''99'' one_badge)) 1 = created_of one_badge 1
   \<and> list_all (\<lambda>x. created_at x \<le> updated_at x)
        (table (run postgres
           [(5, PostBadges [''student_id'' \<mapsto> JNum 1, ''badge_name'' \<mapsto> JStr ''Rust Basics'']),
            (3, PutBadge ''1'' [''badge_name'' \<mapsto> JStr ''Advanced Rust'', ''created_at'' \<mapsto> JNum 0,
                                ''updated_at'' \<mapsto> JNum 0])] empty_db))"
proof -
  note t = timestamps [where cv = postgres and dt = 3 and d = one_badge
      and ?b0.0 = "[''student_id'' \<mapsto> JStr ''2'', ''badge_name'' \<mapsto> JStr ''Go'']"
      and sv = "JStr ''2''" and m = 2 and nv = "JStr ''Go''" and s = "''Go''" and dv = SNull
      and ?ok0.0 = True and ?msg0.0 = None
      and ?x0.0 = "Some (Row \<lparr>row_id = 2, student_id = 2, badge_name = ''Go'',
                               badge_description = None, verified = False, created_at = 8,
                               updated_at = 8\<rparr>)"
      and ident = "''1''" and n = 1
      and b = "[''badge_name'' \<mapsto> JStr ''Advanced Rust'', ''created_at'' \<mapsto> JNum 0,
                ''updated_at'' \<mapsto> JNum 0]"
      and old = "\<lparr>row_id = 1, student_id = 1, badge_name = ''Rust Basics'', badge_description = None,
                  verified = False, created_at = 5, updated_at = 5\<rparr>"
      and i = 1 and t = 5 and ident' = "''99''"
      and ?ok1.0 = True and ?msg1.0 = None
      and ?x1.0 = "Some (Row \<lparr>row_id = 1, student_id = 1, badge_name = ''Advanced Rust'',
                               badge_description = None, verified = False, created_at = 5,
                               updated_at = 8\<rparr>)"
      and ?ok2.0 = True and ?msg2.0 = None
      and ?x2.0 = "Some (Row \<lparr>row_id = 1, student_id = 1, badge_name = ''Rust Basics'',
                               badge_description = None, verified = True, created_at = 5,
                               updated_at = 8\<rparr>)"
      and history =
        "[(5, PostBadges [''student_id'' \<mapsto> JNum 1, ''badge_name'' \<mapsto> JStr ''Rust Basics'']),
          (3, PutBadge ''1'' [''badge_name'' \<mapsto> JStr ''Advanced Rust'', ''created_at'' \<mapsto> JNum 0,
                              ''updated_at'' \<mapsto> JNum 0])]"]
  have now: "clock one_badge = 5"
    and rows: "table one_badge =
      [\<lparr>row_id = 1, student_id = 1, badge_name = ''Rust Basics'', badge_description = None,
        verified = False, created_at = 5, updated_at = 5\<rparr>]"
    by (simp_all add: one_badge_eq)
  show ?thesis
    using t
    by (simp add: post_badges_second put_badge_client_timestamps patch_verify_toggle_one
          delete_badge_absent run_two_requests created_of_def badge_with_id_def now rows
          list_all_iff
          del: run.simps)
qed

end
